theory Spec2Isabelle
  imports Main
begin

section \<open>Python values used by main.py\<close>

text \<open>
  A Python \<open>str\<close> is modelled as a \<open>string\<close>; one \<open>char\<close> stands for one
  character of the \<open>str\<close>, so \<open>length\<close> is Python's \<open>len\<close>. A Python \<open>int\<close> is an
  \<open>int\<close>. A \<open>UUID\<close> is only ever compared and used as a dictionary key; it is a
  natural number here.
\<close>

type_synonym uuid = nat

text \<open>
  The exceptions the handlers raise: \<open>HTTPException(status_code=..., detail=...)\<close> from
  main.py, the validation error raised when a pydantic model is constructed from
  fields that break a \<open>Field\<close> constraint, and the \<open>KeyError\<close> of \<open>d[k]\<close> on a key
  that is absent.
\<close>

datatype error = HTTPException (status_code: nat) (detail: string) | ValidationError | KeyError

subsection \<open>Dictionaries\<close>

text \<open>
  The four "databases" of main.py are Python dicts. \<open>list(d.values())\<close> reads them in
  insertion order, so a dict is an association list in insertion order: \<open>k in d\<close> is
  \<open>dict_mem\<close>, reading \<open>d[k]\<close> is \<open>dict_index\<close> (over the lookup \<open>dict_get\<close>), and
  \<open>d[k] = v\<close> is \<open>dict_set\<close>, which overwrites the value of a present key where it stands and appends
  a new key at the end.
\<close>

type_synonym ('k, 'v) dict = "('k \<times> 'v) list"

fun dict_get :: "('k, 'v) dict \<Rightarrow> 'k \<Rightarrow> 'v option" where
  "dict_get [] k = None"
| "dict_get ((k', v) # d) k = (if k' = k then Some v else dict_get d k)"

definition dict_mem :: "'k \<Rightarrow> ('k, 'v) dict \<Rightarrow> bool" where
  "dict_mem k d = (dict_get d k \<noteq> None)"

fun dict_set :: "('k, 'v) dict \<Rightarrow> 'k \<Rightarrow> 'v \<Rightarrow> ('k, 'v) dict" where
  "dict_set [] k v = [(k, v)]"
| "dict_set ((k', v') # d) k v = (if k' = k then (k, v) # d else (k', v') # dict_set d k v)"

definition dict_index :: "('k, 'v) dict \<Rightarrow> 'k \<Rightarrow> error + 'v" where
  "dict_index d k = (case dict_get d k of None \<Rightarrow> Inl KeyError | Some v \<Rightarrow> Inr v)"

definition dict_values :: "('k, 'v) dict \<Rightarrow> 'v list" where
  "dict_values d = map snd d"

subsection \<open>Formatting an int\<close>

text \<open>
  \<open>f"{year}"\<close> of an \<open>int\<close> is its decimal numeral: a minus sign for a negative number,
  then the digits with no leading zero.
\<close>

definition digit_char :: "nat \<Rightarrow> char" where
  "digit_char d = ''0123456789'' ! d"

fun str_nat :: "nat \<Rightarrow> string" where
  "str_nat n = (if n < 10 then [digit_char n] else str_nat (n div 10) @ [digit_char (n mod 10)])"

declare str_nat.simps [simp del]

definition str_int :: "int \<Rightarrow> string" where
  "str_int i = (if i < 0 then CHR ''-'' # str_nat (nat (- i)) else str_nat (nat i))"

text \<open>Reading a decimal numeral back; the proofs use it to show that \<open>str_nat\<close> is injective.\<close>

definition digit_val :: "char \<Rightarrow> nat" where
  "digit_val c = of_char c - 48"

definition nat_of_str :: "string \<Rightarrow> nat" where
  "nat_of_str s = foldl (\<lambda>a c. 10 * a + digit_val c) 0 s"

section \<open>The composite key of an enrollment\<close>

text \<open>
  \<^verbatim>\<open>
  def _enroll_key(uni: str, course_code: str, year: int, term: str) -> str:
      return f"{uni}|{course_code}|{year}|{term}"
  \<close>
\<close>

definition enroll_key :: "string \<Rightarrow> string \<Rightarrow> int \<Rightarrow> string \<Rightarrow> string" where
  "enroll_key uni course_code year term =
     uni @ ''|'' @ course_code @ ''|'' @ str_int year @ ''|'' @ term"

section \<open>The models\<close>

subsection \<open>models/my_models.py\<close>

text \<open>
  \<^verbatim>\<open>
  class Course(BaseModel):
      code: str = Field(...)
      title: str = Field(...)
      instructor: str = Field(...)
      credits: int = Field(..., ge=0, le=6)
      dept_id: str = Field(...)
  \<close>
  A record holds the fields; \<open>Course_validate\<close> is the check that constructing the
  model runs on them.
\<close>

record Course =
  code :: string
  title :: string
  instructor :: string
  credits :: int
  dept_id :: string

definition Course_validate :: "Course \<Rightarrow> error + Course" where
  "Course_validate c = (if 0 \<le> credits c \<and> credits c \<le> 6 then Inr c else Inl ValidationError)"

subsection \<open>models/person.py and models/address.py\<close>

text \<open>
  Modelled from the spec: the declarations of \<open>AddressCreate\<close>, \<open>AddressRead\<close>,
  \<open>AddressUpdate\<close>, \<open>PersonCreate\<close>, \<open>PersonRead\<close> and \<open>PersonUpdate\<close>, which main.py
  imports. An Address has an id and the attributes street, city, state, postal_code
  and country; main.py reads \<open>address.id\<close> of an \<open>AddressCreate\<close>, so the Create shape of
  an Address carries the id and one record serves for \<open>AddressCreate\<close>, \<open>AddressRead\<close> and
  the addresses embedded in a Person. A Person has the attributes uni, first_name,
  last_name, email, phone, birth_date and a list of addresses; its Read shape adds the
  generated id. An Update shape has every field optional, the id among them (the spec
  lets the partial fields of an update carry the identity field): \<open>None\<close> is a field the
  payload leaves unset, \<open>Some v\<close> a field it sets to \<open>v\<close>, and
  \<open>model_dump(exclude_unset=True)\<close> holds exactly the fields that are set. The field \<open>id\<close>
  is written \<open>id'\<close>. The type of birth_date is a parameter \<open>'d\<close>.
\<close>

record Address =
  id' :: uuid
  street :: string
  city :: string
  state :: string
  postal_code :: string
  country :: string

record AddressUpdate =
  id' :: "uuid option"
  street :: "string option"
  city :: "string option"
  state :: "string option"
  postal_code :: "string option"
  country :: "string option"

record 'd PersonCreate =
  uni :: string
  first_name :: string
  last_name :: string
  email :: string
  phone :: string
  birth_date :: 'd
  addresses :: "Address list"

record 'd PersonRead = "'d PersonCreate" +
  id' :: uuid

record 'd PersonUpdate =
  id' :: "uuid option"
  uni :: "string option"
  first_name :: "string option"
  last_name :: "string option"
  email :: "string option"
  phone :: "string option"
  birth_date :: "'d option"
  addresses :: "Address list option"

text \<open>
  \<^verbatim>\<open>
  class Enrollment(BaseModel):
      uni: str = Field(..., min_length=2)
      course_code: str = Field(...)
      year: int = Field(...)
      term: str = Field(...)
      status: str = Field(...)
  \<close>
\<close>

record Enrollment =
  uni :: string
  course_code :: string
  year :: int
  "term" :: string
  status :: string

definition Enrollment_validate :: "Enrollment \<Rightarrow> error + Enrollment" where
  "Enrollment_validate e = (if 2 \<le> length (Enrollment.uni e) then Inr e else Inl ValidationError)"

section \<open>The in-memory databases\<close>

text \<open>
  \<^verbatim>\<open>
  persons: Dict[UUID, PersonRead] = {}
  addresses: Dict[UUID, AddressRead] = {}
  courses: Dict[str, Course] = {}  # key = course.code
  enrollments: Dict[str, Enrollment] = {}  # key = f"{uni}|{course_code}|{year}|{term}"
  \<close>
  The four module-level dicts are the state; a handler takes it and returns it.
\<close>

record 'd store =
  persons :: "(uuid, 'd PersonRead) dict"
  addresses :: "(uuid, Address) dict"
  courses :: "(string, Course) dict"
  enrollments :: "(string, Enrollment) dict"

definition empty_store :: "'d store" where
  "empty_store = \<lparr>persons = [], addresses = [], courses = [], enrollments = []\<rparr>"

section \<open>Address endpoints\<close>

text \<open>
  \<^verbatim>\<open>
  def create_address(address: AddressCreate):
      if address.id in addresses:
          raise HTTPException(status_code=400, detail="Address with this ID already exists")
      addresses[address.id] = AddressRead(**address.model_dump())
      return addresses[address.id]
  \<close>
  \<open>AddressRead(**address.model_dump())\<close> has the fields of \<open>address\<close>.
\<close>

definition create_address :: "'d store \<Rightarrow> Address \<Rightarrow> (error + Address) \<times> 'd store" where
  "create_address st address =
     (if dict_mem (Address.id' address) (store.addresses st)
      then (Inl (HTTPException 400 ''Address with this ID already exists''), st)
      else let st' = st\<lparr>store.addresses :=
                          dict_set (store.addresses st) (Address.id' address) address\<rparr>
           in (dict_index (store.addresses st') (Address.id' address), st'))"

text \<open>
  \<^verbatim>\<open>
  results = list(addresses.values())
  if street is not None:
      results = [a for a in results if a.street == street]
  ...
  return results
  \<close>
  \<open>keep\<close> is one such step: \<open>None\<close> leaves the list as it is. A query parameter
  whose name is a field's name is written with a prime.
\<close>

definition keep :: "'q option \<Rightarrow> ('a \<Rightarrow> 'q \<Rightarrow> bool) \<Rightarrow> 'a list \<Rightarrow> 'a list" where
  "keep q p results = (case q of None \<Rightarrow> results | Some v \<Rightarrow> filter (\<lambda>a. p a v) results)"

definition list_addresses ::
  "'d store \<Rightarrow> string option \<Rightarrow> string option \<Rightarrow> string option \<Rightarrow> string option \<Rightarrow>
     string option \<Rightarrow> Address list" where
  "list_addresses st street' city' state' postal_code' country' =
     (let results = dict_values (store.addresses st);
          results = keep street' (\<lambda>a v. Address.street a = v) results;
          results = keep city' (\<lambda>a v. Address.city a = v) results;
          results = keep state' (\<lambda>a v. Address.state a = v) results;
          results = keep postal_code' (\<lambda>a v. Address.postal_code a = v) results;
          results = keep country' (\<lambda>a v. Address.country a = v) results
      in results)"

definition get_address :: "'d store \<Rightarrow> uuid \<Rightarrow> error + Address" where
  "get_address st address_id =
     (if \<not> dict_mem address_id (store.addresses st)
      then Inl (HTTPException 404 ''Address not found'')
      else dict_index (store.addresses st) address_id)"

text \<open>
  \<^verbatim>\<open>
  def update_address(address_id: UUID, update: AddressUpdate):
      if address_id not in addresses:
          raise HTTPException(status_code=404, detail="Address not found")
      stored = addresses[address_id].model_dump()
      stored.update(update.model_dump(exclude_unset=True))
      addresses[address_id] = AddressRead(**stored)
      return addresses[address_id]
  \<close>
  \<open>Address_merge\<close> is \<open>stored.update(update.model_dump(exclude_unset=True))\<close>: every
  field the payload sets overwrites the stored one, the id like any other. The merged
  record is stored under \<open>address_id\<close>, the id of the path. \<open>AddressRead(**stored)\<close> validates the
  merged fields; the constraints of \<open>AddressRead\<close> are the parameter \<open>AddressRead_ok\<close>.
\<close>

definition Address_merge :: "Address \<Rightarrow> AddressUpdate \<Rightarrow> Address" where
  "Address_merge stored update =
     stored\<lparr>Address.id' := (case AddressUpdate.id' update of None \<Rightarrow> Address.id' stored | Some v \<Rightarrow> v),
            Address.street := (case AddressUpdate.street update of None \<Rightarrow> Address.street stored | Some v \<Rightarrow> v),
            Address.city := (case AddressUpdate.city update of None \<Rightarrow> Address.city stored | Some v \<Rightarrow> v),
            Address.state := (case AddressUpdate.state update of None \<Rightarrow> Address.state stored | Some v \<Rightarrow> v),
            Address.postal_code :=
              (case AddressUpdate.postal_code update of None \<Rightarrow> Address.postal_code stored | Some v \<Rightarrow> v),
            Address.country :=
              (case AddressUpdate.country update of None \<Rightarrow> Address.country stored | Some v \<Rightarrow> v)\<rparr>"

definition update_address ::
  "(Address \<Rightarrow> bool) \<Rightarrow> 'd store \<Rightarrow> uuid \<Rightarrow> AddressUpdate \<Rightarrow> (error + Address) \<times> 'd store" where
  "update_address AddressRead_ok st address_id update =
     (if \<not> dict_mem address_id (store.addresses st)
      then (Inl (HTTPException 404 ''Address not found''), st)
      else case dict_index (store.addresses st) address_id of
             Inl e \<Rightarrow> (Inl e, st)
           | Inr current \<Rightarrow>
               let stored = Address_merge current update
               in if AddressRead_ok stored
                  then let st' = st\<lparr>store.addresses :=
                                      dict_set (store.addresses st) address_id stored\<rparr>
                       in (dict_index (store.addresses st') address_id, st')
                  else (Inl ValidationError, st))"

section \<open>Person endpoints\<close>

text \<open>
  \<^verbatim>\<open>
  def create_person(person: PersonCreate):
      # Each person gets its own UUID; stored as PersonRead
      person_read = PersonRead(**person.model_dump())
      persons[person_read.id] = person_read
      return person_read
  \<close>
  \<open>PersonRead\<close> generates the id; the generated value is the argument \<open>new_id\<close>.
\<close>

definition create_person ::
  "'d store \<Rightarrow> uuid \<Rightarrow> 'd PersonCreate \<Rightarrow> (error + 'd PersonRead) \<times> 'd store" where
  "create_person st new_id person =
     (let person_read = PersonCreate.extend person (PersonRead.fields new_id);
          st' = st\<lparr>store.persons :=
                    dict_set (store.persons st) (PersonRead.id' person_read) person_read\<rparr>
      in (Inr person_read, st'))"

text \<open>
  \<open>list_persons\<close> compares \<open>str(p.birth_date)\<close> with the query; \<open>str\<close> on a birth_date
  is the parameter \<open>date_str\<close>.
\<close>

definition list_persons ::
  "('d \<Rightarrow> string) \<Rightarrow> 'd store \<Rightarrow> string option \<Rightarrow> string option \<Rightarrow> string option \<Rightarrow>
     string option \<Rightarrow> string option \<Rightarrow> string option \<Rightarrow> string option \<Rightarrow> string option \<Rightarrow>
     'd PersonRead list" where
  "list_persons date_str st uni' first_name' last_name' email' phone' birth_date' city' country' =
     (let results = dict_values (store.persons st);
          results = keep uni' (\<lambda>p v. PersonCreate.uni p = v) results;
          results = keep first_name' (\<lambda>p v. PersonCreate.first_name p = v) results;
          results = keep last_name' (\<lambda>p v. PersonCreate.last_name p = v) results;
          results = keep email' (\<lambda>p v. PersonCreate.email p = v) results;
          results = keep phone' (\<lambda>p v. PersonCreate.phone p = v) results;
          results = keep birth_date' (\<lambda>p v. date_str (PersonCreate.birth_date p) = v) results;
          results = keep city'
            (\<lambda>p v. list_ex (\<lambda>addr. Address.city addr = v) (PersonCreate.addresses p)) results;
          results = keep country'
            (\<lambda>p v. list_ex (\<lambda>addr. Address.country addr = v) (PersonCreate.addresses p)) results
      in results)"

definition get_person :: "'d store \<Rightarrow> uuid \<Rightarrow> error + 'd PersonRead" where
  "get_person st person_id =
     (if \<not> dict_mem person_id (store.persons st)
      then Inl (HTTPException 404 ''Person not found'')
      else dict_index (store.persons st) person_id)"

definition Person_merge :: "'d PersonRead \<Rightarrow> 'd PersonUpdate \<Rightarrow> 'd PersonRead" where
  "Person_merge stored update =
     stored\<lparr>PersonRead.id' :=
              (case PersonUpdate.id' update of None \<Rightarrow> PersonRead.id' stored | Some v \<Rightarrow> v),
            PersonCreate.uni :=
              (case PersonUpdate.uni update of None \<Rightarrow> PersonCreate.uni stored | Some v \<Rightarrow> v),
            PersonCreate.first_name :=
              (case PersonUpdate.first_name update of None \<Rightarrow> PersonCreate.first_name stored | Some v \<Rightarrow> v),
            PersonCreate.last_name :=
              (case PersonUpdate.last_name update of None \<Rightarrow> PersonCreate.last_name stored | Some v \<Rightarrow> v),
            PersonCreate.email :=
              (case PersonUpdate.email update of None \<Rightarrow> PersonCreate.email stored | Some v \<Rightarrow> v),
            PersonCreate.phone :=
              (case PersonUpdate.phone update of None \<Rightarrow> PersonCreate.phone stored | Some v \<Rightarrow> v),
            PersonCreate.birth_date :=
              (case PersonUpdate.birth_date update of None \<Rightarrow> PersonCreate.birth_date stored | Some v \<Rightarrow> v),
            PersonCreate.addresses :=
              (case PersonUpdate.addresses update of None \<Rightarrow> PersonCreate.addresses stored | Some v \<Rightarrow> v)\<rparr>"

definition update_person ::
  "('d PersonRead \<Rightarrow> bool) \<Rightarrow> 'd store \<Rightarrow> uuid \<Rightarrow> 'd PersonUpdate \<Rightarrow>
     (error + 'd PersonRead) \<times> 'd store" where
  "update_person PersonRead_ok st person_id update =
     (if \<not> dict_mem person_id (store.persons st)
      then (Inl (HTTPException 404 ''Person not found''), st)
      else case dict_index (store.persons st) person_id of
             Inl e \<Rightarrow> (Inl e, st)
           | Inr current \<Rightarrow>
               let stored = Person_merge current update
               in if PersonRead_ok stored
                  then let st' = st\<lparr>store.persons :=
                                      dict_set (store.persons st) person_id stored\<rparr>
                       in (dict_index (store.persons st') person_id, st')
                  else (Inl ValidationError, st))"

section \<open>Course endpoints\<close>

text \<open>
  \<^verbatim>\<open>
  def create_course(course: Course):
      if course.code in courses:
          raise HTTPException(status_code=400, detail="Course with this code already exists")
      courses[course.code] = course
      return course
  \<close>
\<close>

definition create_course :: "'d store \<Rightarrow> Course \<Rightarrow> (error + Course) \<times> 'd store" where
  "create_course st course =
     (if dict_mem (Course.code course) (store.courses st)
      then (Inl (HTTPException 400 ''Course with this code already exists''), st)
      else (Inr course,
            st\<lparr>store.courses := dict_set (store.courses st) (Course.code course) course\<rparr>))"

text \<open>
  \<^verbatim>\<open>
  def list_courses(
      code: Optional[str] = Query(None), dept_id: Optional[str] = Query(None),
      instructor: Optional[str] = Query(None),
      min_credits: Optional[int] = Query(None, ge=0),
      max_credits: Optional[int] = Query(None, ge=0)):
      results = list(courses.values())
      if code is not None:
          results = [c for c in results if c.code == code]
      ...
      if min_credits is not None:
          results = [c for c in results if c.credits >= min_credits]
      if max_credits is not None:
          results = [c for c in results if c.credits <= max_credits]
      return results
  \<close>
  \<open>Query_ge0\<close> is the constraint \<open>ge=0\<close> on a query parameter; a value that breaks it is
  rejected before the body runs.
\<close>

definition Query_ge0 :: "int option \<Rightarrow> bool" where
  "Query_ge0 q = (case q of None \<Rightarrow> True | Some v \<Rightarrow> 0 \<le> v)"

definition list_courses ::
  "'d store \<Rightarrow> string option \<Rightarrow> string option \<Rightarrow> string option \<Rightarrow> int option \<Rightarrow>
     int option \<Rightarrow> error + Course list" where
  "list_courses st code' dept_id' instructor' min_credits max_credits =
     (if \<not> (Query_ge0 min_credits \<and> Query_ge0 max_credits) then Inl ValidationError
      else let results = dict_values (store.courses st);
               results = keep code' (\<lambda>c v. Course.code c = v) results;
               results = keep dept_id' (\<lambda>c v. Course.dept_id c = v) results;
               results = keep instructor' (\<lambda>c v. Course.instructor c = v) results;
               results = keep min_credits (\<lambda>c v. Course.credits c \<ge> v) results;
               results = keep max_credits (\<lambda>c v. Course.credits c \<le> v) results
           in Inr results)"

definition get_course :: "'d store \<Rightarrow> string \<Rightarrow> error + Course" where
  "get_course st course_code' =
     (if \<not> dict_mem course_code' (store.courses st)
      then Inl (HTTPException 404 ''Course not found'')
      else dict_index (store.courses st) course_code')"

section \<open>Enrollment endpoints\<close>

text \<open>
  \<^verbatim>\<open>
  def create_enrollment(enrollment: Enrollment):
      key = _enroll_key(enrollment.uni, enrollment.course_code, enrollment.year, enrollment.term)
      if key in enrollments:
          raise HTTPException(status_code=400, detail="Enrollment already exists for this (uni, course, year, term)")
      enrollments[key] = enrollment
      return enrollment
  \<close>
\<close>

definition create_enrollment ::
  "'d store \<Rightarrow> Enrollment \<Rightarrow> (error + Enrollment) \<times> 'd store" where
  "create_enrollment st enrollment =
     (let key = enroll_key (Enrollment.uni enrollment) (Enrollment.course_code enrollment)
                  (Enrollment.year enrollment) (Enrollment.term enrollment)
      in if dict_mem key (store.enrollments st)
         then (Inl (HTTPException 400
                 ''Enrollment already exists for this (uni, course, year, term)''), st)
         else (Inr enrollment,
               st\<lparr>store.enrollments := dict_set (store.enrollments st) key enrollment\<rparr>))"

definition list_enrollments ::
  "'d store \<Rightarrow> string option \<Rightarrow> string option \<Rightarrow> int option \<Rightarrow> string option \<Rightarrow>
     string option \<Rightarrow> Enrollment list" where
  "list_enrollments st uni' course_code' year' term' status' =
     (let results = dict_values (store.enrollments st);
          results = keep uni' (\<lambda>e v. Enrollment.uni e = v) results;
          results = keep course_code' (\<lambda>e v. Enrollment.course_code e = v) results;
          results = keep year' (\<lambda>e v. Enrollment.year e = v) results;
          results = keep term' (\<lambda>e v. Enrollment.term e = v) results;
          results = keep status' (\<lambda>e v. Enrollment.status e = v) results
      in results)"

definition get_enrollment ::
  "'d store \<Rightarrow> string \<Rightarrow> string \<Rightarrow> int \<Rightarrow> string \<Rightarrow> error + Enrollment" where
  "get_enrollment st uni' course_code' year' term' =
     (let key = enroll_key uni' course_code' year' term'
      in if \<not> dict_mem key (store.enrollments st)
         then Inl (HTTPException 404 ''Enrollment not found'')
         else dict_index (store.enrollments st) key)"

text \<open>
  \<^verbatim>\<open>
  def update_enrollment_status(uni, course_code, year, term, status):
      key = _enroll_key(uni, course_code, year, term)
      if key not in enrollments:
          raise HTTPException(status_code=404, detail="Enrollment not found")
      current = enrollments[key].model_dump()
      current["status"] = status
      enrollments[key] = Enrollment(**current)
      return enrollments[key]
  \<close>
  \<open>Enrollment(**current)\<close> validates the fields again.
\<close>

definition update_enrollment_status ::
  "'d store \<Rightarrow> string \<Rightarrow> string \<Rightarrow> int \<Rightarrow> string \<Rightarrow> string \<Rightarrow>
     (error + Enrollment) \<times> 'd store" where
  "update_enrollment_status st uni' course_code' year' term' status' =
     (let key = enroll_key uni' course_code' year' term'
      in if \<not> dict_mem key (store.enrollments st)
         then (Inl (HTTPException 404 ''Enrollment not found''), st)
         else case dict_index (store.enrollments st) key of
                Inl e \<Rightarrow> (Inl e, st)
              | Inr stored \<Rightarrow>
                  (case Enrollment_validate (stored\<lparr>Enrollment.status := status'\<rparr>) of
                     Inl e \<Rightarrow> (Inl e, st)
                   | Inr current \<Rightarrow>
                       let st' = st\<lparr>store.enrollments :=
                                      dict_set (store.enrollments st) key current\<rparr>
                       in (dict_index (store.enrollments st') key, st')))"

section \<open>Requests and responses\<close>

text \<open>
  A route's decorator fixes the status of a successful response (\<open>status_code=201\<close> on
  the POST routes, 200 otherwise); an \<open>HTTPException\<close> is answered with its own status
  and detail; any other exception is \<open>Raised\<close>, and its answer is the framework's. A request body is validated into its model before the handler runs.
\<close>

datatype 'a response = Response (status: nat) (content: "string + 'a") | Raised error

fun respond :: "nat \<Rightarrow> error + 'a \<Rightarrow> 'a response" where
  "respond ok (Inr v) = Response ok (Inr v)"
| "respond ok (Inl (HTTPException c d)) = Response c (Inl d)"
| "respond ok (Inl e) = Raised e"

definition post_addresses :: "'d store \<Rightarrow> Address \<Rightarrow> Address response \<times> 'd store" where
  "post_addresses st body = (case create_address st body of (r, st') \<Rightarrow> (respond 201 r, st'))"

definition patch_addresses ::
  "(Address \<Rightarrow> bool) \<Rightarrow> 'd store \<Rightarrow> uuid \<Rightarrow> AddressUpdate \<Rightarrow> Address response \<times> 'd store" where
  "patch_addresses AddressRead_ok st address_id body =
     (case update_address AddressRead_ok st address_id body of (r, st') \<Rightarrow> (respond 200 r, st'))"

definition post_persons ::
  "'d store \<Rightarrow> uuid \<Rightarrow> 'd PersonCreate \<Rightarrow> 'd PersonRead response \<times> 'd store" where
  "post_persons st new_id body =
     (case create_person st new_id body of (r, st') \<Rightarrow> (respond 201 r, st'))"

definition patch_persons ::
  "('d PersonRead \<Rightarrow> bool) \<Rightarrow> 'd store \<Rightarrow> uuid \<Rightarrow> 'd PersonUpdate \<Rightarrow>
     'd PersonRead response \<times> 'd store" where
  "patch_persons PersonRead_ok st person_id body =
     (case update_person PersonRead_ok st person_id body of (r, st') \<Rightarrow> (respond 200 r, st'))"

definition post_courses :: "'d store \<Rightarrow> Course \<Rightarrow> Course response \<times> 'd store" where
  "post_courses st body =
     (case Course_validate body of
        Inl e \<Rightarrow> (respond 201 (Inl e), st)
      | Inr course \<Rightarrow> (case create_course st course of (r, st') \<Rightarrow> (respond 201 r, st')))"

definition post_enrollments :: "'d store \<Rightarrow> Enrollment \<Rightarrow> Enrollment response \<times> 'd store" where
  "post_enrollments st body =
     (case Enrollment_validate body of
        Inl e \<Rightarrow> (respond 201 (Inl e), st)
      | Inr enrollment \<Rightarrow>
          (case create_enrollment st enrollment of (r, st') \<Rightarrow> (respond 201 r, st')))"

definition patch_enrollments ::
  "'d store \<Rightarrow> string \<Rightarrow> string \<Rightarrow> int \<Rightarrow> string \<Rightarrow> string \<Rightarrow>
     Enrollment response \<times> 'd store" where
  "patch_enrollments st uni' course_code' year' term' status' =
     (case update_enrollment_status st uni' course_code' year' term' status' of
        (r, st') \<Rightarrow> (respond 200 r, st'))"

text \<open>
  The requests that write to the store, and the store after one of them. The reading
  routes (the GET handlers above) take the store and return no new one.
\<close>

datatype 'd request =
    PostAddresses Address
  | PatchAddresses uuid AddressUpdate
  | PostPersons uuid "'d PersonCreate"
  | PatchPersons uuid "'d PersonUpdate"
  | PostCourses Course
  | PostEnrollments Enrollment
  | PatchEnrollments string string int string string

fun serve ::
  "(Address \<Rightarrow> bool) \<Rightarrow> ('d PersonRead \<Rightarrow> bool) \<Rightarrow> 'd store \<Rightarrow> 'd request \<Rightarrow> 'd store" where
  "serve aok pok st (PostAddresses body) = snd (post_addresses st body)"
| "serve aok pok st (PatchAddresses address_id body) = snd (patch_addresses aok st address_id body)"
| "serve aok pok st (PostPersons new_id body) = snd (post_persons st new_id body)"
| "serve aok pok st (PatchPersons person_id body) = snd (patch_persons pok st person_id body)"
| "serve aok pok st (PostCourses body) = snd (post_courses st body)"
| "serve aok pok st (PostEnrollments body) = snd (post_enrollments st body)"
| "serve aok pok st (PatchEnrollments u c y t s) = snd (patch_enrollments st u c y t s)"

text \<open>
  The store after a list of requests, from the empty dicts the module starts with.
\<close>

definition run ::
  "(Address \<Rightarrow> bool) \<Rightarrow> ('d PersonRead \<Rightarrow> bool) \<Rightarrow> 'd request list \<Rightarrow> 'd store" where
  "run aok pok reqs = foldl (serve aok pok) empty_store reqs"

section \<open>Properties stated by the specification\<close>

text \<open>
  \<open>supplied q p\<close>: the predicate \<open>p\<close> of a filter holds if the filter \<open>q\<close> is supplied.
  \<open>merged u old new\<close>: \<open>new\<close> is the value of a field after a partial update \<open>u\<close> of a
  field that was \<open>old\<close>. \<open>coherent\<close>: every course is stored under its code and every
  enrollment under the key of its own fields.
\<close>

definition supplied :: "'q option \<Rightarrow> ('q \<Rightarrow> bool) \<Rightarrow> bool" where
  "supplied q p = (case q of None \<Rightarrow> True | Some v \<Rightarrow> p v)"


definition coherent :: "'d store \<Rightarrow> bool" where
  "coherent st =
     (list_all (\<lambda>(k, c). k = Course.code c) (store.courses st)
      \<and> list_all (\<lambda>(k, e). k = enroll_key (Enrollment.uni e) (Enrollment.course_code e)
                                 (Enrollment.year e) (Enrollment.term e))
            (store.enrollments st))"

text \<open>
  An identity is stored when some stored entity carries it: \<open>address_stored\<close>,
  \<open>person_stored\<close>, \<open>enrollment_stored\<close>. \<open>ids_coherent\<close>: every address and person is
  stored under its own id. \<open>pipe_free\<close>: no stored enrollment has the separator \<open>|\<close> in
  its uni or course_code.
\<close>

definition address_stored :: "'d store \<Rightarrow> uuid \<Rightarrow> bool" where
  "address_stored st i = list_ex (\<lambda>a. Address.id' a = i) (dict_values (store.addresses st))"

definition person_stored :: "'d store \<Rightarrow> uuid \<Rightarrow> bool" where
  "person_stored st i = list_ex (\<lambda>p. PersonRead.id' p = i) (dict_values (store.persons st))"

definition enrollment_stored :: "'d store \<Rightarrow> string \<Rightarrow> string \<Rightarrow> int \<Rightarrow> string \<Rightarrow> bool" where
  "enrollment_stored st u c y t =
     list_ex (\<lambda>e. Enrollment.uni e = u \<and> Enrollment.course_code e = c
                  \<and> Enrollment.year e = y \<and> Enrollment.term e = t)
       (dict_values (store.enrollments st))"

definition ids_coherent :: "'d store \<Rightarrow> bool" where
  "ids_coherent st =
     (list_all (\<lambda>(k, a). k = Address.id' a) (store.addresses st)
      \<and> list_all (\<lambda>(k, p). k = PersonRead.id' p) (store.persons st))"

definition pipe_free :: "'d store \<Rightarrow> bool" where
  "pipe_free st =
     list_all (\<lambda>(k, e). CHR ''|'' \<notin> set (Enrollment.uni e)
                       \<and> CHR ''|'' \<notin> set (Enrollment.course_code e))
       (store.enrollments st)"

definition enrollments_valid :: "'d store \<Rightarrow> bool" where
  "enrollments_valid st =
     list_all (\<lambda>(k, e). Enrollment_validate e = Inr e) (store.enrollments st)"

section \<open>Example values\<close>

definition ex_address :: Address where
  "ex_address = \<lparr>Address.id' = 3, street = ''123 Main Street'', city = ''New York'',
     state = ''NY'', postal_code = ''10001'', country = ''USA''\<rparr>"

definition ex_person :: "string PersonCreate" where
  "ex_person = \<lparr>PersonCreate.uni = ''abc1234'', first_name = ''Ada'', last_name = ''Lovelace'',
     email = ''ada@example.com'', phone = ''+1-212-555-0199'', birth_date = ''1815-12-10'',
     addresses = [ex_address]\<rparr>"

definition ex_course :: Course where
  "ex_course = \<lparr>code = ''COMS W4153'', title = ''Cloud Computing'',
     instructor = ''Donald F. Ferguson'', credits = 3, dept_id = ''COMS''\<rparr>"

definition ex_enrollment :: Enrollment where
  "ex_enrollment = \<lparr>Enrollment.uni = ''abc1234'', course_code = ''COMS W4153'', year = 2025,
     term = ''FALL'', status = ''enrolled''\<rparr>"


definition ex_pipe_enrollment :: Enrollment where
  "ex_pipe_enrollment = \<lparr>Enrollment.uni = ''ab|c'', course_code = ''d'', year = 2025,
     term = ''FALL'', status = ''enrolled''\<rparr>"

definition ex_pipe_store :: "string store" where
  "ex_pipe_store = run (\<lambda>a. True) (\<lambda>p. True) [PostEnrollments ex_pipe_enrollment]"

definition ex_store :: "string store" where
  "ex_store = run (\<lambda>a. True) (\<lambda>p. True)
     [PostAddresses ex_address, PostPersons 7 ex_person, PostCourses ex_course,
      PostEnrollments ex_enrollment]"

section \<open>Facts about the dictionaries\<close>

lemma dict_get_set_same: "dict_get (dict_set d k v) k = Some v"
  by (induction d) auto

lemma dict_set_absent: "dict_get d k = None \<Longrightarrow> dict_set d k v = d @ [(k, v)]"
  by (induction d) (auto split: if_splits)

lemma dict_index_set_same: "dict_index (dict_set d k v) k = Inr v"
  by (simp add: dict_index_def dict_get_set_same)

lemma dict_get_in_set: "dict_get d k = Some v \<Longrightarrow> (k, v) \<in> set d"
  by (induction d) (auto split: if_splits)

lemma list_all_dict_set: "list_all P d \<Longrightarrow> P (k, v) \<Longrightarrow> list_all P (dict_set d k v)"
  by (induction d) auto

section \<open>Facts about the decimal numerals\<close>

lemma digit_cases:
  "d < 10 \<Longrightarrow> d = 0 \<or> d = 1 \<or> d = 2 \<or> d = 3 \<or> d = 4 \<or> d = 5 \<or> d = 6 \<or> d = 7 \<or> d = 8 \<or> d = (9::nat)"
  by arith

lemma digit_val_digit_char: "d < 10 \<Longrightarrow> digit_val (digit_char d) = d"
  using digit_cases [of d] by (auto simp: digit_val_def digit_char_def)

lemma digit_char_not_pipe: "d < 10 \<Longrightarrow> digit_char d \<noteq> CHR ''|''"
  using digit_cases [of d] by (auto simp: digit_char_def)

lemma digit_char_not_minus: "d < 10 \<Longrightarrow> digit_char d \<noteq> CHR ''-''"
  using digit_cases [of d] by (auto simp: digit_char_def)

text \<open>Reading the digits back gives the number, so \<open>str_nat\<close> is injective.\<close>

lemma nat_of_str_str_nat: "nat_of_str (str_nat n) = n"
proof (induction n rule: str_nat.induct)
  case (1 n)
  show ?case
  proof (cases "n < 10")
    case True
    then show ?thesis
      by (simp add: str_nat.simps [of n] nat_of_str_def digit_val_digit_char)
  next
    case False
    with 1 have "nat_of_str (str_nat (n div 10)) = n div 10" by simp
    with False show ?thesis
      by (simp add: str_nat.simps [of n] nat_of_str_def digit_val_digit_char)
  qed
qed

lemma str_nat_inj: "str_nat m = str_nat n \<Longrightarrow> m = n"
  by (metis nat_of_str_str_nat)

lemma str_nat_chars: "c \<in> set (str_nat n) \<Longrightarrow> \<exists>d<10. c = digit_char d"
proof (induction n rule: str_nat.induct)
  case (1 n)
  show ?case
  proof (cases "n < 10")
    case True
    with 1(2) show ?thesis by (auto simp: str_nat.simps [of n])
  next
    case False
    from 1(2) False have "c \<in> set (str_nat (n div 10)) \<or> c = digit_char (n mod 10)"
      by (auto simp: str_nat.simps [of n])
    then show ?thesis
    proof
      assume "c \<in> set (str_nat (n div 10))"
      with 1(1) False show ?thesis by blast
    next
      assume "c = digit_char (n mod 10)"
      moreover have "n mod 10 < 10" by simp
      ultimately show ?thesis by blast
    qed
  qed
qed

lemma str_nat_nonempty: "str_nat n \<noteq> []"
  by (simp add: str_nat.simps [of n])

lemma hd_str_nat: "hd (str_nat n) \<noteq> CHR ''-''"
proof -
  have "hd (str_nat n) \<in> set (str_nat n)" using str_nat_nonempty by simp
  then obtain d where "d < 10" "hd (str_nat n) = digit_char d" using str_nat_chars by blast
  then show ?thesis using digit_char_not_minus by simp
qed

lemma str_int_inj:
  assumes eq: "str_int i = str_int j"
  shows "i = j"
proof -
  have neg: "(i < 0) = (j < 0)"
  proof (rule ccontr)
    assume "(i < 0) \<noteq> (j < 0)"
    then consider "i < 0" "\<not> j < 0" | "\<not> i < 0" "j < 0" by blast
    then show False
    proof cases
      case 1
      with eq have "CHR ''-'' # str_nat (nat (- i)) = str_nat (nat j)" by (simp add: str_int_def)
      then have "hd (str_nat (nat j)) = CHR ''-''" by (metis list.sel(1))
      then show False using hd_str_nat by blast
    next
      case 2
      with eq have "CHR ''-'' # str_nat (nat (- j)) = str_nat (nat i)" by (simp add: str_int_def)
      then have "hd (str_nat (nat i)) = CHR ''-''" by (metis list.sel(1))
      then show False using hd_str_nat by blast
    qed
  qed
  show "i = j"
  proof (cases "i < 0")
    case True
    with neg eq have "str_nat (nat (- i)) = str_nat (nat (- j))" by (simp add: str_int_def)
    then have "nat (- i) = nat (- j)" by (rule str_nat_inj)
    with True neg show ?thesis by simp
  next
    case False
    with neg eq have "str_nat (nat i) = str_nat (nat j)" by (simp add: str_int_def)
    then have "nat i = nat j" by (rule str_nat_inj)
    with False neg show ?thesis by simp
  qed
qed

lemma str_int_no_pipe: "CHR ''|'' \<notin> set (str_int i)"
proof
  assume "CHR ''|'' \<in> set (str_int i)"
  then have "CHR ''|'' \<in> set (str_nat (nat (- i))) \<or> CHR ''|'' \<in> set (str_nat (nat i))"
    by (simp add: str_int_def split: if_splits)
  then obtain d where "d < 10" "CHR ''|'' = digit_char d" using str_nat_chars by blast
  then show False using digit_char_not_pipe by metis
qed

text \<open>Two strings cut at the first occurrence of a separator agree part by part.\<close>

lemma split_at_sep:
  assumes "c \<notin> set a" "c \<notin> set a'" "a @ c # r = a' @ c # r'"
  shows "a = a' \<and> r = r'"
  using assms
proof (induction a arbitrary: a')
  case Nil
  then show ?case by (cases a') auto
next
  case (Cons x xs)
  then show ?case by (cases a') auto
qed

lemma enroll_key_inj:
  assumes "CHR ''|'' \<notin> set u1" "CHR ''|'' \<notin> set c1" "CHR ''|'' \<notin> set u2" "CHR ''|'' \<notin> set c2"
    and eq: "enroll_key u1 c1 y1 t1 = enroll_key u2 c2 y2 t2"
  shows "u1 = u2 \<and> c1 = c2 \<and> y1 = y2 \<and> t1 = t2"
proof -
  from eq have e1: "u1 @ CHR ''|'' # (c1 @ CHR ''|'' # (str_int y1 @ CHR ''|'' # t1))
      = u2 @ CHR ''|'' # (c2 @ CHR ''|'' # (str_int y2 @ CHR ''|'' # t2))"
    by (simp add: enroll_key_def)
  from split_at_sep [OF assms(1) assms(3) e1]
  have u: "u1 = u2" and e2: "c1 @ CHR ''|'' # (str_int y1 @ CHR ''|'' # t1)
      = c2 @ CHR ''|'' # (str_int y2 @ CHR ''|'' # t2)" by simp_all
  from split_at_sep [OF assms(2) assms(4) e2]
  have c: "c1 = c2" and e3: "str_int y1 @ CHR ''|'' # t1 = str_int y2 @ CHR ''|'' # t2"
    by simp_all
  from split_at_sep [OF str_int_no_pipe str_int_no_pipe e3]
  have "str_int y1 = str_int y2" and t: "t1 = t2" by simp_all
  then have "y1 = y2" using str_int_inj by blast
  with u c t show ?thesis by simp
qed

lemma enroll_key_one_differs:
  "u1 \<noteq> u2 \<Longrightarrow> enroll_key u1 c y t \<noteq> enroll_key u2 c y t"
  "c1 \<noteq> c2 \<Longrightarrow> enroll_key u c1 y t \<noteq> enroll_key u c2 y t"
  "y1 \<noteq> y2 \<Longrightarrow> enroll_key u c y1 t \<noteq> enroll_key u c y2 t"
  "t1 \<noteq> t2 \<Longrightarrow> enroll_key u c y t1 \<noteq> enroll_key u c y t2"
  using str_int_inj by (auto simp: enroll_key_def)

section \<open>C1: the composite key builder\<close>

text \<open>
  C1, as stated, fails: the schema only asks that uni has at least two characters, and
  two tuples that both satisfy it and differ in uni and course_code are given the same
  key when the separator occurs inside a component.
\<close>

theorem enroll_key_collision:
  "2 \<le> length ''ab|c'' \<and> 2 \<le> length ''ab''
   \<and> (''ab|c'', ''d'', 2025 :: int, ''FALL'') \<noteq> (''ab'', ''c|d'', 2025, ''FALL'')
   \<and> enroll_key ''ab|c'' ''d'' 2025 ''FALL'' = enroll_key ''ab'' ''c|d'' 2025 ''FALL''"
  by (simp add: enroll_key_def)

text \<open>
  C1, amended: the composite key builder is deterministic (equal tuples get the same
  key); two tuples that differ in exactly one component get different keys; and on
  tuples whose uni and course_code do not contain the separator \<open>|\<close> the builder is
  injective: equal keys only for equal tuples.
\<close>

theorem enroll_key_injective_without_pipe:
  "((u1, c1, y1, t1) = (u2, c2, y2, t2) \<longrightarrow> enroll_key u1 c1 y1 t1 = enroll_key u2 c2 y2 t2)
   \<and> (u1 \<noteq> u2 \<longrightarrow> enroll_key u1 c1 y1 t1 \<noteq> enroll_key u2 c1 y1 t1)
   \<and> (c1 \<noteq> c2 \<longrightarrow> enroll_key u1 c1 y1 t1 \<noteq> enroll_key u1 c2 y1 t1)
   \<and> (y1 \<noteq> y2 \<longrightarrow> enroll_key u1 c1 y1 t1 \<noteq> enroll_key u1 c1 y2 t1)
   \<and> (t1 \<noteq> t2 \<longrightarrow> enroll_key u1 c1 y1 t1 \<noteq> enroll_key u1 c1 y1 t2)
   \<and> (CHR ''|'' \<notin> set u1 \<and> CHR ''|'' \<notin> set c1 \<and> CHR ''|'' \<notin> set u2 \<and> CHR ''|'' \<notin> set c2
        \<and> (u1, c1, y1, t1) \<noteq> (u2, c2, y2, t2)
      \<longrightarrow> enroll_key u1 c1 y1 t1 \<noteq> enroll_key u2 c2 y2 t2)"
proof (intro conjI impI)
  assume "(u1, c1, y1, t1) = (u2, c2, y2, t2)"
  then show "enroll_key u1 c1 y1 t1 = enroll_key u2 c2 y2 t2" by simp
next
  assume "u1 \<noteq> u2"
  then show "enroll_key u1 c1 y1 t1 \<noteq> enroll_key u2 c1 y1 t1" by (rule enroll_key_one_differs)
next
  assume "c1 \<noteq> c2"
  then show "enroll_key u1 c1 y1 t1 \<noteq> enroll_key u1 c2 y1 t1" by (rule enroll_key_one_differs)
next
  assume "y1 \<noteq> y2"
  then show "enroll_key u1 c1 y1 t1 \<noteq> enroll_key u1 c1 y2 t1" by (rule enroll_key_one_differs)
next
  assume "t1 \<noteq> t2"
  then show "enroll_key u1 c1 y1 t1 \<noteq> enroll_key u1 c1 y1 t2" by (rule enroll_key_one_differs)
next
  assume a: "CHR ''|'' \<notin> set u1 \<and> CHR ''|'' \<notin> set c1 \<and> CHR ''|'' \<notin> set u2 \<and> CHR ''|'' \<notin> set c2
        \<and> (u1, c1, y1, t1) \<noteq> (u2, c2, y2, t2)"
  show "enroll_key u1 c1 y1 t1 \<noteq> enroll_key u2 c2 y2 t2"
  proof
    assume "enroll_key u1 c1 y1 t1 = enroll_key u2 c2 y2 t2"
    with a have "u1 = u2 \<and> c1 = c2 \<and> y1 = y2 \<and> t1 = t2" by (intro enroll_key_inj) simp_all
    with a show False by simp
  qed
qed

theorem enroll_key_injective_without_pipe_witness:
  "(''abc1234'', ''COMS W4153'', 2025 :: int, ''FALL'') \<noteq> (''xy9'', ''COMS W4111'', 2024, ''SPRING'')
   \<and> CHR ''|'' \<notin> set ''abc1234'' \<and> CHR ''|'' \<notin> set ''COMS W4153''
   \<and> CHR ''|'' \<notin> set ''xy9'' \<and> CHR ''|'' \<notin> set ''COMS W4111''
   \<and> enroll_key ''abc1234'' ''COMS W4153'' 2025 ''FALL'' \<noteq> enroll_key ''xy9'' ''COMS W4111'' 2024 ''SPRING''
   \<and> enroll_key ''abc1234'' ''COMS W4153'' 2025 ''FALL'' \<noteq> enroll_key ''xy9'' ''COMS W4153'' 2025 ''FALL''
   \<and> enroll_key ''abc1234'' ''COMS W4153'' 2025 ''FALL'' \<noteq> enroll_key ''abc1234'' ''COMS W4111'' 2025 ''FALL''
   \<and> enroll_key ''abc1234'' ''COMS W4153'' 2025 ''FALL'' \<noteq> enroll_key ''abc1234'' ''COMS W4153'' 2024 ''FALL''
   \<and> enroll_key ''abc1234'' ''COMS W4153'' 2025 ''FALL'' \<noteq> enroll_key ''abc1234'' ''COMS W4153'' 2025 ''SPRING''
   \<and> enroll_key ''abc1234'' ''COMS W4153'' 2025 ''FALL'' = enroll_key ''abc1234'' ''COMS W4153'' 2025 ''FALL''"
  using enroll_key_injective_without_pipe
    [of "''abc1234''" "''COMS W4153''" 2025 "''FALL''" "''xy9''" "''COMS W4111''" 2024 "''SPRING''"]
  by simp

section \<open>The example store\<close>

lemma str_int_2025: "str_int 2025 = ''2025''"
  by (simp add: str_int_def str_nat.simps digit_char_def)

lemma ex_key: "enroll_key ''abc1234'' ''COMS W4153'' 2025 ''FALL'' = ''abc1234|COMS W4153|2025|FALL''"
  by (simp add: enroll_key_def str_int_2025)

lemma ex_store_eq:
  "ex_store =
     \<lparr>persons = [(7, PersonCreate.extend ex_person (PersonRead.fields 7))],
      addresses = [(3, ex_address)],
      courses = [(''COMS W4153'', ex_course)],
      enrollments = [(''abc1234|COMS W4153|2025|FALL'', ex_enrollment)]\<rparr>"
proof -
  let ?p = "PersonCreate.extend ex_person (PersonRead.fields 7)"
  let ?s1 = "\<lparr>persons = [], addresses = [(3, ex_address)], courses = [],
              enrollments = []\<rparr> :: string store"
  let ?s2 = "\<lparr>persons = [(7, ?p)], addresses = [(3, ex_address)], courses = [],
              enrollments = []\<rparr> :: string store"
  let ?s3 = "\<lparr>persons = [(7, ?p)], addresses = [(3, ex_address)],
              courses = [(''COMS W4153'', ex_course)], enrollments = []\<rparr> :: string store"
  have i: "Address.id' ex_address = 3"
    by (simp add: ex_address_def)
  have c: "Course_validate ex_course = Inr ex_course" "Course.code ex_course = ''COMS W4153''"
    by (simp_all add: Course_validate_def ex_course_def)
  have e: "Enrollment_validate ex_enrollment = Inr ex_enrollment"
    "enroll_key (Enrollment.uni ex_enrollment) (Enrollment.course_code ex_enrollment)
       (Enrollment.year ex_enrollment) (Enrollment.term ex_enrollment)
     = ''abc1234|COMS W4153|2025|FALL''"
    by (simp_all add: Enrollment_validate_def ex_enrollment_def ex_key)
  have 1: "snd (post_addresses empty_store ex_address) = ?s1"
    by (simp add: post_addresses_def create_address_def empty_store_def dict_mem_def i Let_def)
  have 2: "snd (post_persons ?s1 7 ex_person) = ?s2"
    by (simp add: post_persons_def create_person_def Let_def PersonCreate.defs PersonRead.defs)
  have 3: "snd (post_courses ?s2 ex_course) = ?s3"
    by (simp add: post_courses_def create_course_def c dict_mem_def)
  have 4: "snd (post_enrollments ?s3 ex_enrollment)
           = ?s3\<lparr>enrollments := [(''abc1234|COMS W4153|2025|FALL'', ex_enrollment)]\<rparr>"
    by (simp add: post_enrollments_def create_enrollment_def e dict_mem_def)
  show ?thesis
    unfolding ex_store_def run_def by (simp add: 1 2 3 4)
qed

section \<open>C2: POST /persons\<close>

text \<open>
  C2, as stated, fails in its second half: \<open>create_person\<close> has no check of the id
  against the persons dict. In the example store person 7 is present; a POST whose
  generated id is 7 again is answered with 201, not 400.
\<close>

theorem create_person_no_conflict_check:
  "dict_mem 7 (store.persons ex_store)
   \<and> status (fst (post_persons ex_store 7 ex_person)) = 201
   \<and> status (fst (post_persons ex_store 7 ex_person)) \<noteq> 400"
  by (simp add: ex_store_eq post_persons_def create_person_def dict_mem_def Let_def)

text \<open>
  C2, amended: POST /persons creates a Person and returns status 201 in every store
  state and for every generated id: the created person carries the generated id and the
  fields of the payload, and is stored under that id; no id conflict is checked and no
  400 is returned.
\<close>

theorem post_persons_created:
  "post_persons st new_id body =
     (Response 201 (Inr (PersonCreate.extend body (PersonRead.fields new_id))),
      st\<lparr>store.persons := dict_set (store.persons st) new_id
                              (PersonCreate.extend body (PersonRead.fields new_id))\<rparr>)
   \<and> PersonRead.id' (PersonCreate.extend body (PersonRead.fields new_id)) = new_id
   \<and> PersonCreate.truncate (PersonCreate.extend body (PersonRead.fields new_id)) = body
   \<and> get_person (snd (post_persons st new_id body)) new_id
       = Inr (PersonCreate.extend body (PersonRead.fields new_id))"
  by (simp add: post_persons_def create_person_def Let_def PersonCreate.defs PersonRead.defs
      get_person_def dict_mem_def dict_get_set_same dict_index_set_same)

section \<open>C4: creating an identity that is already present\<close>

text \<open>
  C4: for every store state, creating an Address, a Course or an Enrollment whose
  identity is already a key of its dict fails with \<open>HTTPException(status_code=400)\<close>,
  answered with status 400, and the store returned is the store given: the value
  already stored under that identity is unchanged.
\<close>

theorem create_existing_conflict:
  "(dict_mem (Address.id' address) (store.addresses sa) \<longrightarrow>
      create_address sa address
        = (Inl (HTTPException 400 ''Address with this ID already exists''), sa)
      \<and> status (fst (post_addresses sa address)) = 400
      \<and> snd (post_addresses sa address) = sa)
   \<and> (dict_mem (Course.code course) (store.courses sc) \<longrightarrow>
      create_course sc course
        = (Inl (HTTPException 400 ''Course with this code already exists''), sc)
      \<and> status (respond 201 (fst (create_course sc course))) = 400
      \<and> get_course (snd (create_course sc course)) (Course.code course)
          = get_course sc (Course.code course))
   \<and> (dict_mem (enroll_key (Enrollment.uni enrollment) (Enrollment.course_code enrollment)
                  (Enrollment.year enrollment) (Enrollment.term enrollment))
         (store.enrollments se) \<longrightarrow>
      create_enrollment se enrollment
        = (Inl (HTTPException 400
             ''Enrollment already exists for this (uni, course, year, term)''), se)
      \<and> status (respond 201 (fst (create_enrollment se enrollment))) = 400)"
  by (simp add: create_address_def create_course_def create_enrollment_def post_addresses_def)

theorem create_existing_conflict_witness:
  "dict_mem (Address.id' ex_address) (store.addresses ex_store)
   \<and> dict_mem (Course.code ex_course) (store.courses ex_store)
   \<and> dict_mem (enroll_key (Enrollment.uni ex_enrollment) (Enrollment.course_code ex_enrollment)
                 (Enrollment.year ex_enrollment) (Enrollment.term ex_enrollment))
        (store.enrollments ex_store)
   \<and> create_address ex_store (ex_address\<lparr>Address.city := ''Boston''\<rparr>)
       = (Inl (HTTPException 400 ''Address with this ID already exists''), ex_store)
   \<and> create_course ex_store (ex_course\<lparr>Course.title := ''Other''\<rparr>)
       = (Inl (HTTPException 400 ''Course with this code already exists''), ex_store)
   \<and> create_enrollment ex_store (ex_enrollment\<lparr>Enrollment.status := ''dropped''\<rparr>)
       = (Inl (HTTPException 400
            ''Enrollment already exists for this (uni, course, year, term)''), ex_store)"
proof -
  have a: "dict_mem (Address.id' (ex_address\<lparr>Address.city := ''Boston''\<rparr>)) (store.addresses ex_store)"
    by (simp add: ex_store_eq dict_mem_def ex_address_def)
  have c: "dict_mem (Course.code (ex_course\<lparr>Course.title := ''Other''\<rparr>)) (store.courses ex_store)"
    by (simp add: ex_store_eq dict_mem_def ex_course_def)
  have e: "dict_mem (enroll_key (Enrollment.uni (ex_enrollment\<lparr>Enrollment.status := ''dropped''\<rparr>))
                 (Enrollment.course_code (ex_enrollment\<lparr>Enrollment.status := ''dropped''\<rparr>))
                 (Enrollment.year (ex_enrollment\<lparr>Enrollment.status := ''dropped''\<rparr>))
                 (Enrollment.term (ex_enrollment\<lparr>Enrollment.status := ''dropped''\<rparr>)))
        (store.enrollments ex_store)"
    by (simp add: ex_store_eq dict_mem_def ex_enrollment_def ex_key)
  from a c e
    create_existing_conflict [of "ex_address\<lparr>Address.city := ''Boston''\<rparr>" ex_store
      "ex_course\<lparr>Course.title := ''Other''\<rparr>" ex_store
      "ex_enrollment\<lparr>Enrollment.status := ''dropped''\<rparr>" ex_store]
  show ?thesis by simp
qed

section \<open>C5: create, then get\<close>

text \<open>
  C5: in every store state in which a create succeeds, a get on the identity of the
  record that create returned succeeds in the store after the create and returns that
  same record. It holds for the four resources; for an Enrollment the identity is the
  path (uni, course_code, year, term) of the returned record.
\<close>

theorem create_then_get:
  "(create_address sa address = (Inr address', sa') \<longrightarrow>
      get_address sa' (Address.id' address') = Inr address')
   \<and> (create_person sp new_id person = (Inr person', sp') \<longrightarrow>
      get_person sp' (PersonRead.id' person') = Inr person')
   \<and> (create_course sc course = (Inr course', sc') \<longrightarrow>
      get_course sc' (Course.code course') = Inr course')
   \<and> (create_enrollment se enrollment = (Inr enrollment', se') \<longrightarrow>
      get_enrollment se' (Enrollment.uni enrollment') (Enrollment.course_code enrollment')
        (Enrollment.year enrollment') (Enrollment.term enrollment') = Inr enrollment')"
proof (intro conjI impI)
  assume "create_address sa address = (Inr address', sa')"
  then show "get_address sa' (Address.id' address') = Inr address'"
    by (auto simp: create_address_def get_address_def Let_def dict_mem_def dict_index_def
        dict_get_set_same split: if_splits)
next
  assume "create_person sp new_id person = (Inr person', sp')"
  then show "get_person sp' (PersonRead.id' person') = Inr person'"
    by (auto simp: create_person_def get_person_def Let_def dict_mem_def dict_index_def
        dict_get_set_same)
next
  assume "create_course sc course = (Inr course', sc')"
  then show "get_course sc' (Course.code course') = Inr course'"
    by (auto simp: create_course_def get_course_def dict_mem_def dict_index_def
        dict_get_set_same split: if_splits)
next
  assume "create_enrollment se enrollment = (Inr enrollment', se')"
  then show "get_enrollment se' (Enrollment.uni enrollment') (Enrollment.course_code enrollment')
        (Enrollment.year enrollment') (Enrollment.term enrollment') = Inr enrollment'"
    by (auto simp: create_enrollment_def get_enrollment_def Let_def dict_mem_def dict_index_def
        dict_get_set_same split: if_splits)
qed

theorem create_then_get_witness:
  "create_address (empty_store :: string store) ex_address
     = (Inr ex_address, snd (create_address (empty_store :: string store) ex_address))
   \<and> get_address (snd (create_address (empty_store :: string store) ex_address))
        (Address.id' ex_address) = Inr ex_address
   \<and> create_person empty_store 7 ex_person
     = (Inr (PersonCreate.extend ex_person (PersonRead.fields 7)),
        snd (create_person empty_store 7 ex_person))
   \<and> get_person (snd (create_person empty_store 7 ex_person)) 7
     = Inr (PersonCreate.extend ex_person (PersonRead.fields 7))
   \<and> create_course (empty_store :: string store) ex_course
     = (Inr ex_course, snd (create_course (empty_store :: string store) ex_course))
   \<and> get_course (snd (create_course (empty_store :: string store) ex_course)) ''COMS W4153''
     = Inr ex_course
   \<and> create_enrollment (empty_store :: string store) ex_enrollment
     = (Inr ex_enrollment, snd (create_enrollment (empty_store :: string store) ex_enrollment))
   \<and> get_enrollment (snd (create_enrollment (empty_store :: string store) ex_enrollment))
        ''abc1234'' ''COMS W4153'' 2025 ''FALL'' = Inr ex_enrollment"
proof -
  let ?e = "empty_store :: string store"
  have a: "create_address ?e ex_address = (Inr ex_address, snd (create_address ?e ex_address))"
    by (simp add: create_address_def empty_store_def dict_mem_def dict_index_def Let_def)
  have p: "create_person ?e 7 ex_person
     = (Inr (PersonCreate.extend ex_person (PersonRead.fields 7)),
        snd (create_person ?e 7 ex_person))"
    by (simp add: create_person_def Let_def)
  have c: "create_course ?e ex_course = (Inr ex_course, snd (create_course ?e ex_course))"
    by (simp add: create_course_def empty_store_def dict_mem_def)
  have e: "create_enrollment ?e ex_enrollment
     = (Inr ex_enrollment, snd (create_enrollment ?e ex_enrollment))"
    by (simp add: create_enrollment_def empty_store_def dict_mem_def Let_def)
  have i: "PersonRead.id' (PersonCreate.extend ex_person (PersonRead.fields 7)) = 7"
    by (simp add: PersonCreate.defs PersonRead.defs)
  have f: "Course.code ex_course = ''COMS W4153''" "Enrollment.uni ex_enrollment = ''abc1234''"
    "Enrollment.course_code ex_enrollment = ''COMS W4153''" "Enrollment.year ex_enrollment = 2025"
    "Enrollment.term ex_enrollment = ''FALL''"
    by (simp_all add: ex_course_def ex_enrollment_def)
  from create_then_get [of ?e ex_address ex_address "snd (create_address ?e ex_address)"
      ?e 7 ex_person "PersonCreate.extend ex_person (PersonRead.fields 7)"
      "snd (create_person ?e 7 ex_person)"
      ?e ex_course ex_course "snd (create_course ?e ex_course)"
      ?e ex_enrollment ex_enrollment "snd (create_enrollment ?e ex_enrollment)"]
    a p c e
  have "get_address (snd (create_address ?e ex_address)) (Address.id' ex_address) = Inr ex_address
    \<and> get_person (snd (create_person ?e 7 ex_person))
         (PersonRead.id' (PersonCreate.extend ex_person (PersonRead.fields 7)))
       = Inr (PersonCreate.extend ex_person (PersonRead.fields 7))
    \<and> get_course (snd (create_course ?e ex_course)) (Course.code ex_course) = Inr ex_course
    \<and> get_enrollment (snd (create_enrollment ?e ex_enrollment)) (Enrollment.uni ex_enrollment)
         (Enrollment.course_code ex_enrollment) (Enrollment.year ex_enrollment)
         (Enrollment.term ex_enrollment) = Inr ex_enrollment"
    by blast
  with a p c e show ?thesis by (simp only: i f)
qed

section \<open>C6: updating an identity that is absent\<close>

lemma ex_pipe_store_eq:
  "ex_pipe_store =
     \<lparr>persons = [], addresses = [], courses = [],
      enrollments = [(''ab|c|d|2025|FALL'', ex_pipe_enrollment)]\<rparr>"
proof -
  have e: "Enrollment_validate ex_pipe_enrollment = Inr ex_pipe_enrollment"
    "enroll_key (Enrollment.uni ex_pipe_enrollment) (Enrollment.course_code ex_pipe_enrollment)
       (Enrollment.year ex_pipe_enrollment) (Enrollment.term ex_pipe_enrollment)
     = ''ab|c|d|2025|FALL''"
    by (simp_all add: Enrollment_validate_def ex_pipe_enrollment_def enroll_key_def str_int_2025)
  show ?thesis
    unfolding ex_pipe_store_def run_def
    by (simp add: post_enrollments_def create_enrollment_def e empty_store_def dict_mem_def)
qed

text \<open>
  C6, as stated, fails for an Enrollment: the map is looked up by the composite key, and
  the key of an identity that is not stored can be the key of another enrollment that
  is. With only (\<open>ab|c\<close>, \<open>d\<close>, 2025, \<open>FALL\<close>) stored, the update of the status of
  (\<open>ab\<close>, \<open>c|d\<close>, 2025, \<open>FALL\<close>), which no stored enrollment is, is answered 200 and
  rewrites the stored enrollment.
\<close>

theorem update_unknown_enrollment_found:
  "\<not> enrollment_stored ex_pipe_store ''ab'' ''c|d'' 2025 ''FALL''
   \<and> patch_enrollments ex_pipe_store ''ab'' ''c|d'' 2025 ''FALL'' ''dropped''
       = (Response 200 (Inr (ex_pipe_enrollment\<lparr>Enrollment.status := ''dropped''\<rparr>)),
          ex_pipe_store\<lparr>store.enrollments :=
            [(''ab|c|d|2025|FALL'', ex_pipe_enrollment\<lparr>Enrollment.status := ''dropped''\<rparr>)]\<rparr>)
   \<and> store.enrollments (snd (patch_enrollments ex_pipe_store ''ab'' ''c|d'' 2025 ''FALL'' ''dropped''))
       \<noteq> store.enrollments ex_pipe_store"
proof -
  have k: "enroll_key ''ab'' ''c|d'' 2025 ''FALL'' = ''ab|c|d|2025|FALL''"
    by (simp add: enroll_key_def str_int_2025)
  have n: "\<not> enrollment_stored ex_pipe_store ''ab'' ''c|d'' 2025 ''FALL''"
    by (simp add: enrollment_stored_def ex_pipe_store_eq dict_values_def ex_pipe_enrollment_def)
  have p: "patch_enrollments ex_pipe_store ''ab'' ''c|d'' 2025 ''FALL'' ''dropped''
       = (Response 200 (Inr (ex_pipe_enrollment\<lparr>Enrollment.status := ''dropped''\<rparr>)),
          ex_pipe_store\<lparr>store.enrollments :=
            [(''ab|c|d|2025|FALL'', ex_pipe_enrollment\<lparr>Enrollment.status := ''dropped''\<rparr>)]\<rparr>)"
    by (simp add: patch_enrollments_def update_enrollment_status_def k ex_pipe_store_eq
        dict_mem_def dict_index_def Enrollment_validate_def ex_pipe_enrollment_def Let_def)
  have d: "store.enrollments (snd (patch_enrollments ex_pipe_store ''ab'' ''c|d'' 2025 ''FALL'' ''dropped''))
       \<noteq> store.enrollments ex_pipe_store"
    by (simp add: p) (simp add: ex_pipe_store_eq ex_pipe_enrollment_def)
  from n p d show ?thesis by blast
qed

lemma absent_address_key:
  assumes "ids_coherent st" "\<not> address_stored st i"
  shows "\<not> dict_mem i (store.addresses st)"
proof
  assume "dict_mem i (store.addresses st)"
  then obtain a where g: "dict_get (store.addresses st) i = Some a"
    by (auto simp: dict_mem_def)
  then have m: "(i, a) \<in> set (store.addresses st)" by (rule dict_get_in_set)
  with assms(1) have "i = Address.id' a"
    by (auto simp: ids_coherent_def list_all_iff)
  moreover from m have "a \<in> set (dict_values (store.addresses st))"
    by (force simp: dict_values_def)
  ultimately have "address_stored st i"
    by (auto simp: address_stored_def list_ex_iff)
  with assms(2) show False by simp
qed

lemma absent_person_key:
  assumes "ids_coherent st" "\<not> person_stored st i"
  shows "\<not> dict_mem i (store.persons st)"
proof
  assume "dict_mem i (store.persons st)"
  then obtain p where g: "dict_get (store.persons st) i = Some p"
    by (auto simp: dict_mem_def)
  then have m: "(i, p) \<in> set (store.persons st)" by (rule dict_get_in_set)
  with assms(1) have "i = PersonRead.id' p"
    by (auto simp: ids_coherent_def list_all_iff)
  moreover from m have "p \<in> set (dict_values (store.persons st))"
    by (force simp: dict_values_def)
  ultimately have "person_stored st i"
    by (auto simp: person_stored_def list_ex_iff)
  with assms(2) show False by simp
qed

lemma absent_enrollment_key:
  assumes "coherent st" "pipe_free st" "CHR ''|'' \<notin> set u" "CHR ''|'' \<notin> set c"
    and "\<not> enrollment_stored st u c y t"
  shows "\<not> dict_mem (enroll_key u c y t) (store.enrollments st)"
proof
  assume "dict_mem (enroll_key u c y t) (store.enrollments st)"
  then obtain e where g: "dict_get (store.enrollments st) (enroll_key u c y t) = Some e"
    by (auto simp: dict_mem_def)
  then have m: "(enroll_key u c y t, e) \<in> set (store.enrollments st)" by (rule dict_get_in_set)
  with assms(1) have k: "enroll_key u c y t
      = enroll_key (Enrollment.uni e) (Enrollment.course_code e) (Enrollment.year e)
          (Enrollment.term e)"
    by (auto simp: coherent_def list_all_iff)
  from m assms(2) have f: "CHR ''|'' \<notin> set (Enrollment.uni e)"
    "CHR ''|'' \<notin> set (Enrollment.course_code e)"
    by (auto simp: pipe_free_def list_all_iff)
  from enroll_key_inj [OF assms(3) assms(4) f k]
  have "Enrollment.uni e = u \<and> Enrollment.course_code e = c \<and> Enrollment.year e = y
        \<and> Enrollment.term e = t"
    by simp
  moreover from m have "e \<in> set (dict_values (store.enrollments st))"
    by (force simp: dict_values_def)
  ultimately have "enrollment_stored st u c y t"
    by (auto simp: enrollment_stored_def list_ex_iff)
  with assms(5) show False by simp
qed

text \<open>
  C6, amended: for every store state, the update of a Person or an Address whose id is
  not a key of its dict, and the update of the status of an Enrollment whose composite
  key, built from the path, is not a key of the enrollments dict, fails with
  \<open>HTTPException(status_code=404)\<close>, answered with status 404, and the store returned is
  the store given. An identity that no stored entity carries is such a case for a Person
  or an Address when every one is stored under its own id, and for an Enrollment when
  every one is stored under the key of its own fields and the separator \<open>|\<close> occurs
  neither in the uni and course_code of the path nor in those of a stored enrollment.
\<close>

theorem update_unknown_not_found:
  "(\<not> dict_mem address_id (store.addresses st) \<longrightarrow>
      update_address aok st address_id au
        = (Inl (HTTPException 404 ''Address not found''), st)
      \<and> patch_addresses aok st address_id au = (Response 404 (Inl ''Address not found''), st))
   \<and> (\<not> dict_mem person_id (store.persons st) \<longrightarrow>
      update_person pok st person_id pu
        = (Inl (HTTPException 404 ''Person not found''), st)
      \<and> patch_persons pok st person_id pu = (Response 404 (Inl ''Person not found''), st))
   \<and> (\<not> dict_mem (enroll_key u c y t) (store.enrollments st) \<longrightarrow>
      update_enrollment_status st u c y t s
        = (Inl (HTTPException 404 ''Enrollment not found''), st)
      \<and> patch_enrollments st u c y t s = (Response 404 (Inl ''Enrollment not found''), st))
   \<and> (ids_coherent st \<and> \<not> address_stored st address_id \<longrightarrow>
      update_address aok st address_id au
        = (Inl (HTTPException 404 ''Address not found''), st)
      \<and> patch_addresses aok st address_id au = (Response 404 (Inl ''Address not found''), st))
   \<and> (ids_coherent st \<and> \<not> person_stored st person_id \<longrightarrow>
      update_person pok st person_id pu
        = (Inl (HTTPException 404 ''Person not found''), st)
      \<and> patch_persons pok st person_id pu = (Response 404 (Inl ''Person not found''), st))
   \<and> (coherent st \<and> pipe_free st \<and> CHR ''|'' \<notin> set u \<and> CHR ''|'' \<notin> set c
        \<and> \<not> enrollment_stored st u c y t \<longrightarrow>
      update_enrollment_status st u c y t s
        = (Inl (HTTPException 404 ''Enrollment not found''), st)
      \<and> patch_enrollments st u c y t s = (Response 404 (Inl ''Enrollment not found''), st))"
proof -
  have a: "\<not> dict_mem address_id (store.addresses st) \<Longrightarrow>
      update_address aok st address_id au
        = (Inl (HTTPException 404 ''Address not found''), st)
      \<and> patch_addresses aok st address_id au = (Response 404 (Inl ''Address not found''), st)"
    by (simp add: update_address_def patch_addresses_def)
  have p: "\<not> dict_mem person_id (store.persons st) \<Longrightarrow>
      update_person pok st person_id pu
        = (Inl (HTTPException 404 ''Person not found''), st)
      \<and> patch_persons pok st person_id pu = (Response 404 (Inl ''Person not found''), st)"
    by (simp add: update_person_def patch_persons_def)
  have e: "\<not> dict_mem (enroll_key u c y t) (store.enrollments st) \<Longrightarrow>
      update_enrollment_status st u c y t s
        = (Inl (HTTPException 404 ''Enrollment not found''), st)
      \<and> patch_enrollments st u c y t s = (Response 404 (Inl ''Enrollment not found''), st)"
    by (simp add: update_enrollment_status_def patch_enrollments_def)
  show ?thesis
    using a p e absent_address_key [of st address_id] absent_person_key [of st person_id]
      absent_enrollment_key [of st u c y t]
    by blast
qed

theorem update_unknown_not_found_witness:
  "\<not> dict_mem 99 (store.addresses ex_store)
   \<and> \<not> dict_mem 99 (store.persons ex_store)
   \<and> \<not> dict_mem (enroll_key ''zz9'' ''COMS W4153'' 2025 ''FALL'') (store.enrollments ex_store)
   \<and> ids_coherent ex_store \<and> coherent ex_store \<and> pipe_free ex_store
   \<and> \<not> address_stored ex_store 99 \<and> \<not> person_stored ex_store 99
   \<and> CHR ''|'' \<notin> set ''zz9'' \<and> CHR ''|'' \<notin> set ''COMS W4153''
   \<and> \<not> enrollment_stored ex_store ''zz9'' ''COMS W4153'' 2025 ''FALL''
   \<and> update_address (\<lambda>a. True) ex_store 99
        \<lparr>AddressUpdate.id' = None, street = None, city = Some ''Boston'', state = None,
           postal_code = None, country = None\<rparr>
      = (Inl (HTTPException 404 ''Address not found''), ex_store)
   \<and> update_person (\<lambda>p. True) ex_store 99
        \<lparr>PersonUpdate.id' = None, uni = None, first_name = Some ''Grace'', last_name = None,
           email = None, phone = None, birth_date = None, addresses = None\<rparr>
      = (Inl (HTTPException 404 ''Person not found''), ex_store)
   \<and> update_enrollment_status ex_store ''zz9'' ''COMS W4153'' 2025 ''FALL'' ''dropped''
      = (Inl (HTTPException 404 ''Enrollment not found''), ex_store)"
proof -
  have k: "enroll_key ''zz9'' ''COMS W4153'' 2025 ''FALL'' = ''zz9|COMS W4153|2025|FALL''"
    by (simp add: enroll_key_def str_int_2025)
  have n: "\<not> dict_mem 99 (store.addresses ex_store)" "\<not> dict_mem 99 (store.persons ex_store)"
    "\<not> dict_mem (enroll_key ''zz9'' ''COMS W4153'' 2025 ''FALL'') (store.enrollments ex_store)"
    by (simp_all add: k ex_store_eq dict_mem_def)
  have i: "ids_coherent ex_store"
    by (simp add: ids_coherent_def ex_store_eq ex_address_def PersonCreate.defs PersonRead.defs)
  have c: "coherent ex_store"
    by (simp add: coherent_def ex_store_eq ex_course_def ex_enrollment_def ex_key)
  have f: "pipe_free ex_store"
    by (simp add: pipe_free_def ex_store_eq ex_enrollment_def)
  have m: "\<not> address_stored ex_store 99" "\<not> person_stored ex_store 99"
    "\<not> enrollment_stored ex_store ''zz9'' ''COMS W4153'' 2025 ''FALL''"
    by (simp_all add: address_stored_def person_stored_def enrollment_stored_def ex_store_eq
        dict_values_def ex_address_def ex_enrollment_def PersonCreate.defs PersonRead.defs)
  have q: "CHR ''|'' \<notin> set ''zz9''" "CHR ''|'' \<notin> set ''COMS W4153''"
    by simp_all
  from n update_unknown_not_found [of 99 ex_store "\<lambda>a. True"
      "\<lparr>AddressUpdate.id' = None, street = None, city = Some ''Boston'', state = None,
           postal_code = None, country = None\<rparr>" 99 "\<lambda>p. True"
      "\<lparr>PersonUpdate.id' = None, uni = None, first_name = Some ''Grace'', last_name = None,
           email = None, phone = None, birth_date = None, addresses = None\<rparr>"
      "''zz9''" "''COMS W4153''" 2025 "''FALL''" "''dropped''"]
  have "update_address (\<lambda>a. True) ex_store 99
        \<lparr>AddressUpdate.id' = None, street = None, city = Some ''Boston'', state = None,
           postal_code = None, country = None\<rparr>
      = (Inl (HTTPException 404 ''Address not found''), ex_store)
   \<and> update_person (\<lambda>p. True) ex_store 99
        \<lparr>PersonUpdate.id' = None, uni = None, first_name = Some ''Grace'', last_name = None,
           email = None, phone = None, birth_date = None, addresses = None\<rparr>
      = (Inl (HTTPException 404 ''Person not found''), ex_store)
   \<and> update_enrollment_status ex_store ''zz9'' ''COMS W4153'' 2025 ''FALL'' ''dropped''
      = (Inl (HTTPException 404 ''Enrollment not found''), ex_store)"
    by blast
  with n i c f m q show ?thesis by blast
qed

section \<open>C3: partial update\<close>








section \<open>C9: schema validation\<close>

text \<open>
  C9: validation rejects with \<open>ValidationError\<close> every Course payload whose credits
  are below 0 or above 6 and every Enrollment payload whose uni has fewer than 2
  characters, and accepts (returns unchanged) every payload within these constraints. The
  check is a function of the payload alone, and a POST whose body it rejects returns the
  store it was given.
\<close>

theorem validation_rejects_out_of_range:
  "(Course.credits c < 0 \<or> 6 < Course.credits c \<longrightarrow>
      Course_validate c = Inl ValidationError
      \<and> post_courses st c = (Raised ValidationError, st))
   \<and> (0 \<le> Course.credits c \<and> Course.credits c \<le> 6 \<longrightarrow> Course_validate c = Inr c)
   \<and> (length (Enrollment.uni e) < 2 \<longrightarrow>
      Enrollment_validate e = Inl ValidationError
      \<and> post_enrollments st e = (Raised ValidationError, st))
   \<and> (2 \<le> length (Enrollment.uni e) \<longrightarrow> Enrollment_validate e = Inr e)"
  by (auto simp: Course_validate_def Enrollment_validate_def post_courses_def
      post_enrollments_def)

theorem validation_rejects_out_of_range_witness:
  "6 < Course.credits (ex_course\<lparr>Course.credits := 7\<rparr>)
   \<and> Course_validate (ex_course\<lparr>Course.credits := 7\<rparr>) = Inl ValidationError
   \<and> post_courses ex_store (ex_course\<lparr>Course.credits := 7\<rparr>) = (Raised ValidationError, ex_store)
   \<and> length (Enrollment.uni (ex_enrollment\<lparr>Enrollment.uni := ''a''\<rparr>)) < 2
   \<and> Enrollment_validate (ex_enrollment\<lparr>Enrollment.uni := ''a''\<rparr>) = Inl ValidationError
   \<and> post_enrollments ex_store (ex_enrollment\<lparr>Enrollment.uni := ''a''\<rparr>)
       = (Raised ValidationError, ex_store)
   \<and> 0 \<le> Course.credits ex_course \<and> Course.credits ex_course \<le> 6
   \<and> Course_validate ex_course = Inr ex_course
   \<and> 2 \<le> length (Enrollment.uni ex_enrollment)
   \<and> Enrollment_validate ex_enrollment = Inr ex_enrollment"
proof -
  have c: "6 < Course.credits (ex_course\<lparr>Course.credits := 7\<rparr>)"
    and e: "length (Enrollment.uni (ex_enrollment\<lparr>Enrollment.uni := ''a''\<rparr>)) < 2"
    and c': "0 \<le> Course.credits ex_course \<and> Course.credits ex_course \<le> 6"
    and e': "2 \<le> length (Enrollment.uni ex_enrollment)"
    by (simp_all add: ex_course_def ex_enrollment_def)
  from c e
    validation_rejects_out_of_range [of "ex_course\<lparr>Course.credits := 7\<rparr>" ex_store
      "ex_enrollment\<lparr>Enrollment.uni := ''a''\<rparr>"]
  have 1: "Course_validate (ex_course\<lparr>Course.credits := 7\<rparr>) = Inl ValidationError
     \<and> post_courses ex_store (ex_course\<lparr>Course.credits := 7\<rparr>) = (Raised ValidationError, ex_store)
     \<and> Enrollment_validate (ex_enrollment\<lparr>Enrollment.uni := ''a''\<rparr>) = Inl ValidationError
     \<and> post_enrollments ex_store (ex_enrollment\<lparr>Enrollment.uni := ''a''\<rparr>)
       = (Raised ValidationError, ex_store)"
    by blast
  from c' e' validation_rejects_out_of_range [of ex_course ex_store ex_enrollment]
  have 2: "Course_validate ex_course = Inr ex_course
     \<and> Enrollment_validate ex_enrollment = Inr ex_enrollment"
    by blast
  from c e c' e' 1 2 show ?thesis by blast
qed

section \<open>C7: listing with filters\<close>

lemma keep_first: "keep q p xs = filter (\<lambda>a. supplied q (p a)) xs"
  by (cases q) (simp_all add: keep_def supplied_def)

lemma keep_filter: "keep q p (filter P xs) = filter (\<lambda>a. P a \<and> supplied q (p a)) xs"
  by (cases q) (simp_all add: keep_def supplied_def)

lemma dict_values_append: "dict_get d k = None \<Longrightarrow> dict_values (dict_set d k v) = dict_values d @ [v]"
  by (simp add: dict_set_absent dict_values_def)

lemma list_addresses_eq:
  "list_addresses st street' city' state' postal_code' country' =
     filter (\<lambda>a. supplied street' (\<lambda>v. Address.street a = v)
               \<and> supplied city' (\<lambda>v. Address.city a = v)
               \<and> supplied state' (\<lambda>v. Address.state a = v)
               \<and> supplied postal_code' (\<lambda>v. Address.postal_code a = v)
               \<and> supplied country' (\<lambda>v. Address.country a = v))
       (dict_values (store.addresses st))"
  unfolding list_addresses_def Let_def
  by (simp add: keep_first [of street'] keep_filter conj_assoc)

lemma list_persons_eq:
  "list_persons date_str st uni' first_name' last_name' email' phone' birth_date' city' country' =
     filter (\<lambda>p. supplied uni' (\<lambda>v. PersonCreate.uni p = v)
               \<and> supplied first_name' (\<lambda>v. PersonCreate.first_name p = v)
               \<and> supplied last_name' (\<lambda>v. PersonCreate.last_name p = v)
               \<and> supplied email' (\<lambda>v. PersonCreate.email p = v)
               \<and> supplied phone' (\<lambda>v. PersonCreate.phone p = v)
               \<and> supplied birth_date' (\<lambda>v. date_str (PersonCreate.birth_date p) = v)
               \<and> supplied city'
                    (\<lambda>v. list_ex (\<lambda>addr. Address.city addr = v) (PersonCreate.addresses p))
               \<and> supplied country'
                    (\<lambda>v. list_ex (\<lambda>addr. Address.country addr = v) (PersonCreate.addresses p)))
       (dict_values (store.persons st))"
  unfolding list_persons_def Let_def
  by (simp add: keep_first [of uni'] keep_filter conj_assoc)

lemma list_courses_eq:
  "Query_ge0 min_credits \<Longrightarrow> Query_ge0 max_credits \<Longrightarrow>
   list_courses st code' dept_id' instructor' min_credits max_credits =
     Inr (filter (\<lambda>c. supplied code' (\<lambda>v. Course.code c = v)
               \<and> supplied dept_id' (\<lambda>v. Course.dept_id c = v)
               \<and> supplied instructor' (\<lambda>v. Course.instructor c = v)
               \<and> supplied min_credits (\<lambda>v. v \<le> Course.credits c)
               \<and> supplied max_credits (\<lambda>v. Course.credits c \<le> v))
       (dict_values (store.courses st)))"
  unfolding list_courses_def Let_def
  by (simp add: keep_first [of code'] keep_filter conj_assoc)

lemma list_enrollments_eq:
  "list_enrollments st uni' course_code' year' term' status' =
     filter (\<lambda>e. supplied uni' (\<lambda>v. Enrollment.uni e = v)
               \<and> supplied course_code' (\<lambda>v. Enrollment.course_code e = v)
               \<and> supplied year' (\<lambda>v. Enrollment.year e = v)
               \<and> supplied term' (\<lambda>v. Enrollment.term e = v)
               \<and> supplied status' (\<lambda>v. Enrollment.status e = v))
       (dict_values (store.enrollments st))"
  unfolding list_enrollments_def Let_def
  by (simp add: keep_first [of uni'] keep_filter conj_assoc)

lemma create_appends:
  "create_address sa address = (Inr address', sa') \<Longrightarrow>
     dict_values (store.addresses sa') = dict_values (store.addresses sa) @ [address']"
  "\<not> dict_mem new_id (store.persons sp) \<Longrightarrow>
     dict_values (store.persons (snd (create_person sp new_id person)))
       = dict_values (store.persons sp) @ [PersonCreate.extend person (PersonRead.fields new_id)]"
  "create_course sc course = (Inr course', sc') \<Longrightarrow>
     dict_values (store.courses sc') = dict_values (store.courses sc) @ [course']"
  "create_enrollment se enrollment = (Inr enrollment', se') \<Longrightarrow>
     dict_values (store.enrollments se') = dict_values (store.enrollments se) @ [enrollment']"
  by (auto simp: create_address_def create_person_def create_course_def create_enrollment_def
      Let_def dict_mem_def dict_index_def dict_get_set_same dict_values_append
      PersonCreate.defs PersonRead.defs split: if_splits)

text \<open>
  C7: for every store state and every combination of the optional filter parameters
  (for courses: those the query schema \<open>ge=0\<close> admits), a list returns exactly the stored
  entities, in the order of the dict, that satisfy every supplied predicate, with
  min_credits and max_credits as inclusive bounds; with no filter it returns all of
  them. The order of the dict is insertion order: a successful create puts the new
  entity last.
\<close>

theorem list_filters_in_insertion_order:
  "list_addresses st a_street a_city a_state a_postal_code a_country =
     filter (\<lambda>a. supplied a_street (\<lambda>v. Address.street a = v)
               \<and> supplied a_city (\<lambda>v. Address.city a = v)
               \<and> supplied a_state (\<lambda>v. Address.state a = v)
               \<and> supplied a_postal_code (\<lambda>v. Address.postal_code a = v)
               \<and> supplied a_country (\<lambda>v. Address.country a = v))
       (dict_values (store.addresses st))
   \<and> list_persons date_str st p_uni p_first_name p_last_name p_email p_phone p_birth_date
        p_city p_country =
     filter (\<lambda>p. supplied p_uni (\<lambda>v. PersonCreate.uni p = v)
               \<and> supplied p_first_name (\<lambda>v. PersonCreate.first_name p = v)
               \<and> supplied p_last_name (\<lambda>v. PersonCreate.last_name p = v)
               \<and> supplied p_email (\<lambda>v. PersonCreate.email p = v)
               \<and> supplied p_phone (\<lambda>v. PersonCreate.phone p = v)
               \<and> supplied p_birth_date (\<lambda>v. date_str (PersonCreate.birth_date p) = v)
               \<and> supplied p_city
                    (\<lambda>v. list_ex (\<lambda>addr. Address.city addr = v) (PersonCreate.addresses p))
               \<and> supplied p_country
                    (\<lambda>v. list_ex (\<lambda>addr. Address.country addr = v) (PersonCreate.addresses p)))
       (dict_values (store.persons st))
   \<and> (Query_ge0 min_credits \<and> Query_ge0 max_credits \<longrightarrow>
       list_courses st c_code c_dept_id c_instructor min_credits max_credits =
         Inr (filter (\<lambda>c. supplied c_code (\<lambda>v. Course.code c = v)
                   \<and> supplied c_dept_id (\<lambda>v. Course.dept_id c = v)
                   \<and> supplied c_instructor (\<lambda>v. Course.instructor c = v)
                   \<and> supplied min_credits (\<lambda>v. v \<le> Course.credits c)
                   \<and> supplied max_credits (\<lambda>v. Course.credits c \<le> v))
           (dict_values (store.courses st))))
   \<and> list_enrollments st e_uni e_course_code e_year e_term e_status =
     filter (\<lambda>e. supplied e_uni (\<lambda>v. Enrollment.uni e = v)
               \<and> supplied e_course_code (\<lambda>v. Enrollment.course_code e = v)
               \<and> supplied e_year (\<lambda>v. Enrollment.year e = v)
               \<and> supplied e_term (\<lambda>v. Enrollment.term e = v)
               \<and> supplied e_status (\<lambda>v. Enrollment.status e = v))
       (dict_values (store.enrollments st))
   \<and> list_addresses st None None None None None = dict_values (store.addresses st)
   \<and> list_persons date_str st None None None None None None None None
       = dict_values (store.persons st)
   \<and> list_courses st None None None None None = Inr (dict_values (store.courses st))
   \<and> list_enrollments st None None None None None = dict_values (store.enrollments st)
   \<and> (create_address st address = (Inr address', sa') \<longrightarrow>
        dict_values (store.addresses sa') = dict_values (store.addresses st) @ [address'])
   \<and> (\<not> dict_mem new_id (store.persons st) \<longrightarrow>
        dict_values (store.persons (snd (create_person st new_id person)))
          = dict_values (store.persons st)
            @ [PersonCreate.extend person (PersonRead.fields new_id)])
   \<and> (create_course st course = (Inr course', sc') \<longrightarrow>
        dict_values (store.courses sc') = dict_values (store.courses st) @ [course'])
   \<and> (create_enrollment st enrollment = (Inr enrollment', se') \<longrightarrow>
        dict_values (store.enrollments se') = dict_values (store.enrollments st) @ [enrollment'])"
proof -
  have n: "list_addresses st None None None None None = dict_values (store.addresses st)"
    "list_persons date_str st None None None None None None None None
       = dict_values (store.persons st)"
    "list_courses st None None None None None = Inr (dict_values (store.courses st))"
    "list_enrollments st None None None None None = dict_values (store.enrollments st)"
    by (simp_all add: list_addresses_def list_persons_def list_courses_def list_enrollments_def
        keep_def Query_ge0_def)
  show ?thesis
    by (intro conjI impI list_addresses_eq list_persons_eq list_enrollments_eq n)
      (simp_all add: list_courses_eq create_appends)
qed

theorem list_filters_in_insertion_order_witness:
  "Query_ge0 (Some 3) \<and> Query_ge0 (Some 4)
   \<and> list_courses ex_store (Some ''COMS W4153'') None None (Some 3) (Some 4) = Inr [ex_course]
   \<and> list_courses ex_store (Some ''COMS W4111'') None None (Some 3) (Some 4) = Inr []
   \<and> \<not> dict_mem 8 (store.persons ex_store)
   \<and> dict_values (store.persons (snd (create_person ex_store 8 ex_person)))
       = [PersonCreate.extend ex_person (PersonRead.fields 7),
          PersonCreate.extend ex_person (PersonRead.fields 8)]
   \<and> create_course ex_store (ex_course\<lparr>Course.code := ''COMS W4111''\<rparr>)
       = (Inr (ex_course\<lparr>Course.code := ''COMS W4111''\<rparr>),
          snd (create_course ex_store (ex_course\<lparr>Course.code := ''COMS W4111''\<rparr>)))
   \<and> dict_values (store.courses
        (snd (create_course ex_store (ex_course\<lparr>Course.code := ''COMS W4111''\<rparr>))))
       = [ex_course, ex_course\<lparr>Course.code := ''COMS W4111''\<rparr>]
   \<and> create_address ex_store (ex_address\<lparr>Address.id' := 4\<rparr>)
       = (Inr (ex_address\<lparr>Address.id' := 4\<rparr>),
          snd (create_address ex_store (ex_address\<lparr>Address.id' := 4\<rparr>)))
   \<and> dict_values (store.addresses (snd (create_address ex_store (ex_address\<lparr>Address.id' := 4\<rparr>))))
       = [ex_address, ex_address\<lparr>Address.id' := 4\<rparr>]
   \<and> create_enrollment ex_store (ex_enrollment\<lparr>Enrollment.term := ''SPRING''\<rparr>)
       = (Inr (ex_enrollment\<lparr>Enrollment.term := ''SPRING''\<rparr>),
          snd (create_enrollment ex_store (ex_enrollment\<lparr>Enrollment.term := ''SPRING''\<rparr>)))
   \<and> dict_values (store.enrollments
        (snd (create_enrollment ex_store (ex_enrollment\<lparr>Enrollment.term := ''SPRING''\<rparr>))))
       = [ex_enrollment, ex_enrollment\<lparr>Enrollment.term := ''SPRING''\<rparr>]"
proof -
  let ?c = "ex_course\<lparr>Course.code := ''COMS W4111''\<rparr>"
  let ?a = "ex_address\<lparr>Address.id' := 4\<rparr>"
  let ?e = "ex_enrollment\<lparr>Enrollment.term := ''SPRING''\<rparr>"
  have q: "Query_ge0 (Some 3)" "Query_ge0 (Some 4)"
    by (simp_all add: Query_ge0_def)
  have p: "\<not> dict_mem 8 (store.persons ex_store)"
    by (simp add: ex_store_eq dict_mem_def)
  have k: "enroll_key ''abc1234'' ''COMS W4153'' 2025 ''SPRING'' = ''abc1234|COMS W4153|2025|SPRING''"
    by (simp add: enroll_key_def str_int_2025)
  have c: "create_course ex_store ?c = (Inr ?c, snd (create_course ex_store ?c))"
    by (simp add: create_course_def ex_store_eq dict_mem_def ex_course_def)
  have a: "create_address ex_store ?a = (Inr ?a, snd (create_address ex_store ?a))"
    by (simp add: create_address_def ex_store_eq dict_mem_def dict_index_def ex_address_def Let_def)
  have e: "create_enrollment ex_store ?e = (Inr ?e, snd (create_enrollment ex_store ?e))"
    by (simp add: create_enrollment_def ex_store_eq dict_mem_def ex_enrollment_def k Let_def)
  have v: "dict_values (store.persons ex_store) = [PersonCreate.extend ex_person (PersonRead.fields 7)]"
    "dict_values (store.courses ex_store) = [ex_course]"
    "dict_values (store.addresses ex_store) = [ex_address]"
    "dict_values (store.enrollments ex_store) = [ex_enrollment]"
    by (simp_all add: ex_store_eq dict_values_def)
  have f: "Course.code ex_course = ''COMS W4153''" "Course.credits ex_course = 3"
    by (simp_all add: ex_course_def)
  note t1 = list_filters_in_insertion_order [of ex_store _ _ _ _ _ _ _ _ _ _ _ _ _ _
      "Some 3" "Some 4" "Some ''COMS W4153''" None None _ _ _ _ _
      ?a ?a "snd (create_address ex_store ?a)" 8 ex_person
      ?c ?c "snd (create_course ex_store ?c)" ?e ?e "snd (create_enrollment ex_store ?e)"]
  note t2 = list_filters_in_insertion_order [of ex_store _ _ _ _ _ _ _ _ _ _ _ _ _ _
      "Some 3" "Some 4" "Some ''COMS W4111''" None None]
  from t1 q have l1: "list_courses ex_store (Some ''COMS W4153'') None None (Some 3) (Some 4)
      = Inr [ex_course]"
    by (simp add: v supplied_def f)
  from t2 q have l2: "list_courses ex_store (Some ''COMS W4111'') None None (Some 3) (Some 4)
      = Inr []"
    by (simp add: v supplied_def f)
  from t1 p a c e have
    "dict_values (store.persons (snd (create_person ex_store 8 ex_person)))
       = dict_values (store.persons ex_store) @ [PersonCreate.extend ex_person (PersonRead.fields 8)]"
    "dict_values (store.courses (snd (create_course ex_store ?c)))
       = dict_values (store.courses ex_store) @ [?c]"
    "dict_values (store.addresses (snd (create_address ex_store ?a)))
       = dict_values (store.addresses ex_store) @ [?a]"
    "dict_values (store.enrollments (snd (create_enrollment ex_store ?e)))
       = dict_values (store.enrollments ex_store) @ [?e]"
    by blast+
  with q p a c e l1 l2 show ?thesis by (simp add: v)
qed

section \<open>What a request changes in the store\<close>

lemma serve_courses:
  "store.courses (serve aok pok st req) = store.courses st
   \<or> (\<exists>c. req = PostCourses c
          \<and> store.courses (serve aok pok st req) = dict_set (store.courses st) (Course.code c) c)"
proof (cases req)
  case (PostAddresses a)
  then show ?thesis
    by (simp add: post_addresses_def create_address_def Let_def)
next
  case (PatchAddresses i u)
  then show ?thesis
    by (simp add: patch_addresses_def update_address_def Let_def split: sum.split)
next
  case (PostPersons i p)
  then show ?thesis
    by (simp add: post_persons_def create_person_def Let_def)
next
  case (PatchPersons i u)
  then show ?thesis
    by (simp add: patch_persons_def update_person_def Let_def split: sum.split)
next
  case (PostCourses c)
  then show ?thesis
    by (simp add: post_courses_def create_course_def Course_validate_def)
next
  case (PostEnrollments e)
  then show ?thesis
    by (simp add: post_enrollments_def create_enrollment_def Enrollment_validate_def Let_def)
next
  case (PatchEnrollments u c y t s)
  then show ?thesis
    by (simp add: patch_enrollments_def update_enrollment_status_def Let_def split: sum.split)
qed

lemma serve_enrollments:
  "store.enrollments (serve aok pok st req) = store.enrollments st
   \<or> (\<exists>e. req = PostEnrollments e \<and> Enrollment_validate e = Inr e
          \<and> store.enrollments (serve aok pok st req)
              = dict_set (store.enrollments st)
                  (enroll_key (Enrollment.uni e) (Enrollment.course_code e) (Enrollment.year e)
                     (Enrollment.term e)) e)
   \<or> (\<exists>u c y t s e. req = PatchEnrollments u c y t s
          \<and> dict_get (store.enrollments st) (enroll_key u c y t) = Some e
          \<and> Enrollment_validate (e\<lparr>Enrollment.status := s\<rparr>) = Inr (e\<lparr>Enrollment.status := s\<rparr>)
          \<and> store.enrollments (serve aok pok st req)
              = dict_set (store.enrollments st) (enroll_key u c y t) (e\<lparr>Enrollment.status := s\<rparr>))"
proof (cases req)
  case (PostAddresses a)
  then show ?thesis
    by (simp add: post_addresses_def create_address_def Let_def)
next
  case (PatchAddresses i u)
  then show ?thesis
    by (simp add: patch_addresses_def update_address_def Let_def split: sum.split)
next
  case (PostPersons i p)
  then show ?thesis
    by (simp add: post_persons_def create_person_def Let_def)
next
  case (PatchPersons i u)
  then show ?thesis
    by (simp add: patch_persons_def update_person_def Let_def split: sum.split)
next
  case (PostCourses c)
  then show ?thesis
    by (simp add: post_courses_def create_course_def Course_validate_def)
next
  case (PostEnrollments e)
  then show ?thesis
    by (simp add: post_enrollments_def create_enrollment_def Enrollment_validate_def Let_def)
next
  case (PatchEnrollments u c y t s)
  show ?thesis
  proof (cases "dict_get (store.enrollments st) (enroll_key u c y t)")
    case None
    with PatchEnrollments show ?thesis
      by (simp add: patch_enrollments_def update_enrollment_status_def dict_mem_def)
  next
    case (Some e)
    with PatchEnrollments show ?thesis
      by (simp add: patch_enrollments_def update_enrollment_status_def dict_mem_def
          dict_index_def Enrollment_validate_def Let_def)
  qed
qed

lemma coherent_serve:
  assumes "coherent st"
  shows "coherent (serve aok pok st req)"
proof -
  let ?K = "\<lambda>(k, e). k = enroll_key (Enrollment.uni e) (Enrollment.course_code e)
                          (Enrollment.year e) (Enrollment.term e)"
  from assms have c: "list_all (\<lambda>(k, c). k = Course.code c) (store.courses st)"
    and e: "list_all ?K (store.enrollments st)"
    by (simp_all add: coherent_def)
  have "list_all (\<lambda>(k, c). k = Course.code c) (store.courses (serve aok pok st req))"
    using serve_courses [of aok pok st req] c by (auto intro: list_all_dict_set)
  moreover have "list_all ?K (store.enrollments (serve aok pok st req))"
    using serve_enrollments [of aok pok st req]
  proof (elim disjE exE conjE)
    assume "store.enrollments (serve aok pok st req) = store.enrollments st"
    with e show ?thesis by simp
  next
    fix x
    assume "store.enrollments (serve aok pok st req)
              = dict_set (store.enrollments st)
                  (enroll_key (Enrollment.uni x) (Enrollment.course_code x) (Enrollment.year x)
                     (Enrollment.term x)) x"
    with e show ?thesis by (simp add: list_all_dict_set)
  next
    fix u c y t s x
    assume g: "dict_get (store.enrollments st) (enroll_key u c y t) = Some x"
      and s: "store.enrollments (serve aok pok st req)
              = dict_set (store.enrollments st) (enroll_key u c y t) (x\<lparr>Enrollment.status := s\<rparr>)"
    from g have "(enroll_key u c y t, x) \<in> set (store.enrollments st)"
      by (rule dict_get_in_set)
    with e have "?K (enroll_key u c y t, x)"
      by (auto simp: list_all_iff)
    then have "?K (enroll_key u c y t, x\<lparr>Enrollment.status := s\<rparr>)" by simp
    with e s show ?thesis by (simp add: list_all_dict_set)
  qed
  ultimately show ?thesis by (simp add: coherent_def)
qed

lemma enrollments_valid_serve:
  assumes "enrollments_valid st"
  shows "enrollments_valid (serve aok pok st req)"
  using serve_enrollments [of aok pok st req] assms
  by (auto simp: enrollments_valid_def intro: list_all_dict_set)

lemma coherent_empty: "coherent empty_store"
  by (simp add: coherent_def empty_store_def)

lemma coherent_run: "coherent (run aok pok reqs)"
  unfolding run_def
  by (induction reqs rule: rev_induct) (simp_all add: coherent_empty coherent_serve)

lemma enrollments_valid_run: "enrollments_valid (run aok pok reqs)"
  unfolding run_def
  by (induction reqs rule: rev_induct)
    (simp_all add: enrollments_valid_serve, simp add: enrollments_valid_def empty_store_def)

section \<open>C8: PATCH of an enrollment's status\<close>

lemma update_enrollment_status_stored:
  assumes "dict_get (store.enrollments st) (enroll_key u c y t) = Some e"
    and "Enrollment_validate e = Inr e"
  shows "update_enrollment_status st u c y t s =
           (Inr (e\<lparr>Enrollment.status := s\<rparr>),
            st\<lparr>store.enrollments :=
                 dict_set (store.enrollments st) (enroll_key u c y t) (e\<lparr>Enrollment.status := s\<rparr>)\<rparr>)"
proof -
  from assms(2) have "2 \<le> length (Enrollment.uni e)"
    by (simp add: Enrollment_validate_def split: if_splits)
  then have "Enrollment_validate (e\<lparr>Enrollment.status := s\<rparr>) = Inr (e\<lparr>Enrollment.status := s\<rparr>)"
    by (simp add: Enrollment_validate_def)
  with assms(1) show ?thesis
    by (simp add: update_enrollment_status_def dict_mem_def dict_index_def Let_def
        dict_get_set_same)
qed

lemma enrollments_valid_get:
  "enrollments_valid st \<Longrightarrow> dict_get (store.enrollments st) k = Some e \<Longrightarrow>
     Enrollment_validate e = Inr e"
  by (auto simp: enrollments_valid_def list_all_iff dest: dict_get_in_set)

text \<open>
  C8: every Enrollment in a store is a valid \<open>Enrollment\<close> (each store that requests
  produce from the empty one holds only validated enrollments). For every Enrollment \<open>e\<close>
  stored under the key of its own (uni, course_code, year, term), PATCH on that path with
  a status value answers 200 with \<open>e\<close> in which only the status is rewritten to the value
  given, and stores it under the same key: uni, course_code, year and term are those of
  \<open>e\<close>, and a get on the path returns the rewritten record.
\<close>

theorem patch_enrollment_rewrites_status_only:
  "enrollments_valid (run aok pok reqs)
   \<and> (enrollments_valid st
       \<and> dict_get (store.enrollments st)
            (enroll_key (Enrollment.uni e) (Enrollment.course_code e) (Enrollment.year e)
               (Enrollment.term e)) = Some e \<longrightarrow>
       patch_enrollments st (Enrollment.uni e) (Enrollment.course_code e) (Enrollment.year e)
           (Enrollment.term e) s
         = (Response 200 (Inr (e\<lparr>Enrollment.status := s\<rparr>)),
            st\<lparr>store.enrollments :=
                 dict_set (store.enrollments st)
                   (enroll_key (Enrollment.uni e) (Enrollment.course_code e) (Enrollment.year e)
                      (Enrollment.term e))
                   (e\<lparr>Enrollment.status := s\<rparr>)\<rparr>)
       \<and> get_enrollment
            (snd (patch_enrollments st (Enrollment.uni e) (Enrollment.course_code e)
                    (Enrollment.year e) (Enrollment.term e) s))
            (Enrollment.uni e) (Enrollment.course_code e) (Enrollment.year e) (Enrollment.term e)
           = Inr (e\<lparr>Enrollment.status := s\<rparr>)
       \<and> Enrollment.status (e\<lparr>Enrollment.status := s\<rparr>) = s
       \<and> Enrollment.uni (e\<lparr>Enrollment.status := s\<rparr>) = Enrollment.uni e
       \<and> Enrollment.course_code (e\<lparr>Enrollment.status := s\<rparr>) = Enrollment.course_code e
       \<and> Enrollment.year (e\<lparr>Enrollment.status := s\<rparr>) = Enrollment.year e
       \<and> Enrollment.term (e\<lparr>Enrollment.status := s\<rparr>) = Enrollment.term e)"
proof (intro conjI impI)
  show "enrollments_valid (run aok pok reqs)" by (rule enrollments_valid_run)
next
  let ?k = "enroll_key (Enrollment.uni e) (Enrollment.course_code e) (Enrollment.year e)
              (Enrollment.term e)"
  assume a: "enrollments_valid st \<and> dict_get (store.enrollments st) ?k = Some e"
  then have v: "Enrollment_validate e = Inr e" by (blast intro: enrollments_valid_get)
  from a have g: "dict_get (store.enrollments st) ?k = Some e" by simp
  note u = update_enrollment_status_stored [OF g v, of s]
  show "patch_enrollments st (Enrollment.uni e) (Enrollment.course_code e) (Enrollment.year e)
           (Enrollment.term e) s
         = (Response 200 (Inr (e\<lparr>Enrollment.status := s\<rparr>)),
            st\<lparr>store.enrollments := dict_set (store.enrollments st) ?k (e\<lparr>Enrollment.status := s\<rparr>)\<rparr>)"
    by (simp add: patch_enrollments_def u)
  show "get_enrollment
            (snd (patch_enrollments st (Enrollment.uni e) (Enrollment.course_code e)
                    (Enrollment.year e) (Enrollment.term e) s))
            (Enrollment.uni e) (Enrollment.course_code e) (Enrollment.year e) (Enrollment.term e)
           = Inr (e\<lparr>Enrollment.status := s\<rparr>)"
    by (simp add: patch_enrollments_def u get_enrollment_def dict_mem_def dict_get_set_same
        dict_index_set_same)
qed simp_all

theorem patch_enrollment_rewrites_status_only_witness:
  "enrollments_valid ex_store
   \<and> dict_get (store.enrollments ex_store)
        (enroll_key (Enrollment.uni ex_enrollment) (Enrollment.course_code ex_enrollment)
           (Enrollment.year ex_enrollment) (Enrollment.term ex_enrollment)) = Some ex_enrollment
   \<and> fst (patch_enrollments ex_store ''abc1234'' ''COMS W4153'' 2025 ''FALL'' ''dropped'')
       = Response 200 (Inr \<lparr>Enrollment.uni = ''abc1234'', course_code = ''COMS W4153'',
                             year = 2025, term = ''FALL'', status = ''dropped''\<rparr>)
   \<and> get_enrollment
        (snd (patch_enrollments ex_store ''abc1234'' ''COMS W4153'' 2025 ''FALL'' ''dropped''))
        ''abc1234'' ''COMS W4153'' 2025 ''FALL''
       = Inr \<lparr>Enrollment.uni = ''abc1234'', course_code = ''COMS W4153'',
               year = 2025, term = ''FALL'', status = ''dropped''\<rparr>"
proof -
  have f: "Enrollment.uni ex_enrollment = ''abc1234''"
    "Enrollment.course_code ex_enrollment = ''COMS W4153''" "Enrollment.year ex_enrollment = 2025"
    "Enrollment.term ex_enrollment = ''FALL''"
    "ex_enrollment\<lparr>Enrollment.status := ''dropped''\<rparr>
       = \<lparr>Enrollment.uni = ''abc1234'', course_code = ''COMS W4153'',
               year = 2025, term = ''FALL'', status = ''dropped''\<rparr>"
    by (simp_all add: ex_enrollment_def)
  note t = patch_enrollment_rewrites_status_only
    [of "\<lambda>a. True" "\<lambda>p. True"
      "[PostAddresses ex_address, PostPersons 7 ex_person, PostCourses ex_course,
        PostEnrollments ex_enrollment]" ex_store ex_enrollment "''dropped''"]
  from t have v: "enrollments_valid ex_store" by (simp add: ex_store_def)
  have g: "dict_get (store.enrollments ex_store)
        (enroll_key (Enrollment.uni ex_enrollment) (Enrollment.course_code ex_enrollment)
           (Enrollment.year ex_enrollment) (Enrollment.term ex_enrollment)) = Some ex_enrollment"
    by (simp add: f ex_key ex_store_eq)
  from t v g have r1: "patch_enrollments ex_store (Enrollment.uni ex_enrollment)
        (Enrollment.course_code ex_enrollment) (Enrollment.year ex_enrollment)
        (Enrollment.term ex_enrollment) ''dropped''
      = (Response 200 (Inr (ex_enrollment\<lparr>Enrollment.status := ''dropped''\<rparr>)),
         ex_store\<lparr>store.enrollments :=
           dict_set (store.enrollments ex_store)
             (enroll_key (Enrollment.uni ex_enrollment) (Enrollment.course_code ex_enrollment)
                (Enrollment.year ex_enrollment) (Enrollment.term ex_enrollment))
             (ex_enrollment\<lparr>Enrollment.status := ''dropped''\<rparr>)\<rparr>)"
    and r2: "get_enrollment
        (snd (patch_enrollments ex_store (Enrollment.uni ex_enrollment)
                (Enrollment.course_code ex_enrollment) (Enrollment.year ex_enrollment)
                (Enrollment.term ex_enrollment) ''dropped''))
        (Enrollment.uni ex_enrollment) (Enrollment.course_code ex_enrollment)
        (Enrollment.year ex_enrollment) (Enrollment.term ex_enrollment)
      = Inr (ex_enrollment\<lparr>Enrollment.status := ''dropped''\<rparr>)"
    by blast+
  from r1 have r1': "fst (patch_enrollments ex_store (Enrollment.uni ex_enrollment)
        (Enrollment.course_code ex_enrollment) (Enrollment.year ex_enrollment)
        (Enrollment.term ex_enrollment) ''dropped'')
      = Response 200 (Inr (ex_enrollment\<lparr>Enrollment.status := ''dropped''\<rparr>))"
    by simp
  show ?thesis using v g r1' r2 unfolding f by blast
qed

section \<open>C10: keys and stored values agree\<close>

text \<open>
  C10: in the empty store, and after every request in a store where it holds, every
  entry of the courses dict has as key the code of the course stored, and every entry of
  the enrollments dict has as key the composite key built from the stored enrollment's
  own uni, course_code, year and term; so it holds in every store that requests produce.
  (The GET handlers return no store.)
\<close>

theorem key_value_coherence_preserved:
  "coherent (empty_store :: 'd store)
   \<and> (coherent st \<longrightarrow> coherent (serve aok pok st req))
   \<and> coherent (run aok pok reqs)"
  by (simp add: coherent_empty coherent_serve coherent_run)

theorem key_value_coherence_preserved_witness:
  "coherent ex_store
   \<and> coherent (serve (\<lambda>a. True) (\<lambda>p. True) ex_store
        (PatchEnrollments ''abc1234'' ''COMS W4153'' 2025 ''FALL'' ''dropped''))
   \<and> store.enrollments (serve (\<lambda>a. True) (\<lambda>p. True) ex_store
        (PatchEnrollments ''abc1234'' ''COMS W4153'' 2025 ''FALL'' ''dropped''))
      = [(''abc1234|COMS W4153|2025|FALL'', ex_enrollment\<lparr>Enrollment.status := ''dropped''\<rparr>)]
   \<and> coherent (serve (\<lambda>a. True) (\<lambda>p. True) ex_store
        (PostCourses (ex_course\<lparr>Course.code := ''COMS W4111''\<rparr>)))
   \<and> store.courses (serve (\<lambda>a. True) (\<lambda>p. True) ex_store
        (PostCourses (ex_course\<lparr>Course.code := ''COMS W4111''\<rparr>)))
      = [(''COMS W4153'', ex_course), (''COMS W4111'', ex_course\<lparr>Course.code := ''COMS W4111''\<rparr>)]"
proof -
  have c: "coherent ex_store"
    by (simp add: coherent_def ex_store_eq ex_course_def ex_enrollment_def ex_key)
  have e: "store.enrollments (serve (\<lambda>a. True) (\<lambda>p. True) ex_store
        (PatchEnrollments ''abc1234'' ''COMS W4153'' 2025 ''FALL'' ''dropped''))
      = [(''abc1234|COMS W4153|2025|FALL'', ex_enrollment\<lparr>Enrollment.status := ''dropped''\<rparr>)]"
    by (simp add: patch_enrollments_def update_enrollment_status_def ex_key ex_store_eq
        dict_mem_def dict_index_def Enrollment_validate_def ex_enrollment_def Let_def)
  have k: "store.courses (serve (\<lambda>a. True) (\<lambda>p. True) ex_store
        (PostCourses (ex_course\<lparr>Course.code := ''COMS W4111''\<rparr>)))
      = [(''COMS W4153'', ex_course), (''COMS W4111'', ex_course\<lparr>Course.code := ''COMS W4111''\<rparr>)]"
    by (simp add: post_courses_def create_course_def Course_validate_def ex_store_eq
        dict_mem_def ex_course_def)
  from c
    key_value_coherence_preserved [of ex_store "\<lambda>a. True" "\<lambda>p. True"
      "PatchEnrollments ''abc1234'' ''COMS W4153'' 2025 ''FALL'' ''dropped''"]
    key_value_coherence_preserved [of ex_store "\<lambda>a. True" "\<lambda>p. True"
      "PostCourses (ex_course\<lparr>Course.code := ''COMS W4111''\<rparr>)"]
  have "coherent (serve (\<lambda>a. True) (\<lambda>p. True) ex_store
        (PatchEnrollments ''abc1234'' ''COMS W4153'' 2025 ''FALL'' ''dropped''))"
    "coherent (serve (\<lambda>a. True) (\<lambda>p. True) ex_store
        (PostCourses (ex_course\<lparr>Course.code := ''COMS W4111''\<rparr>)))"
    by blast+
  with c e k show ?thesis by blast
qed

end
